theory Spec2Isabelle
  imports Complex_Main "HOL-Library.Sublist" "HOL-Library.Multiset" "HOL-Library.AList"
begin

section \<open>The student test page: quiz assembly, navigation and scoring\<close>

text \<open>
  The component \<open>StudentTest\<close> keeps its view state in React hooks. The part of that
  state the handlers below read or write is one record; every handler takes the state and
  returns the new one. A missing key of \<open>selectedAnswers\<close> (JavaScript \<open>undefined\<close>) is
  \<open>None\<close>.
\<close>

record choice =
  c_id :: string
  c_question_id :: string
  c_choice :: string
  c_is_correct :: bool

text \<open>A row of the table \<open>questions\<close>, as the query returns it.\<close>

record question_row =
  row_id :: string
  row_content :: string
  row_explanation :: string
  row_difficulty :: int

text \<open>The interface \<open>Question\<close>: a row together with its choices.\<close>

record question =
  q_id :: string
  content :: string
  explanation :: string
  difficulty :: int
  choices :: "choice list"

record answer =
  questionId :: string
  selectedAnswer :: string
  isCorrect :: bool

record test_result =
  score :: nat
  total :: nat
  answers :: "answer list"

record test_state =
  questions :: "question list"
  selectedAnswers :: "string \<rightharpoonup> string"
  currentQuestionIndex :: int
  testResult :: "test_result option"

subsection \<open>\<open>fetchQuestions\<close>: from the fetched rows to the selected questions\<close>

text \<open>
  \<open>questionsData.map(question => ({...question, choices: formattedChoices}))\<close>, where
  \<open>formattedChoices\<close> copies the four fields of every choice row of that question.
\<close>

definition formattedChoice :: "choice \<Rightarrow> choice" where
  "formattedChoice c =
     \<lparr>c_id = c_id c, c_question_id = c_question_id c, c_choice = c_choice c,
      c_is_correct = c_is_correct c\<rparr>"

definition questionsWithChoices :: "question_row list \<Rightarrow> choice list \<Rightarrow> question list" where
  "questionsWithChoices questionsData choicesData =
     map (\<lambda>row.
            \<lparr>q_id = row_id row, content = row_content row, explanation = row_explanation row,
             difficulty = row_difficulty row,
             choices = map formattedChoice
                         (filter (\<lambda>c. c_question_id c = row_id row) choicesData)\<rparr>)
         questionsData"

text \<open>
  \<open>questionsWithChoices.filter(q => q.choices.length > 0 && q.choices.some(c => c.is_correct))\<close>
\<close>

definition isValidQuestion :: "question \<Rightarrow> bool" where
  "isValidQuestion q \<longleftrightarrow> length (choices q) > 0 \<and> list_ex c_is_correct (choices q)"

definition validQuestions :: "question list \<Rightarrow> question list" where
  "validQuestions qs = filter isValidQuestion qs"

text \<open>
  The tail of \<open>fetchQuestions\<close>, from the two fetched tables on. \<open>None\<close> is a \<open>return\<close> that
  leaves \<open>questions\<close> as it was; \<open>Some selected\<close> is \<open>setQuestions(selected)\<close>.

  \<open>validQuestions.sort(() => 0.5 - Math.random())\<close> calls the engine's sort with a comparator
  that answers at random. The language leaves the resulting order to the engine and fixes only
  that the result holds the same elements, so the sort is the parameter \<open>sort_random\<close> and
  the theorems assume of it that it permutes its argument. \<open>slice(0, 5)\<close> is \<open>take 5\<close>.
\<close>

definition fetchQuestions ::
  "(question list \<Rightarrow> question list) \<Rightarrow> question_row list \<Rightarrow> choice list \<Rightarrow> question list option"
where
  "fetchQuestions sort_random questionsData choicesData =
     (if length questionsData = 0 then None
      else if length choicesData = 0 then None
      else
        let valid = validQuestions (questionsWithChoices questionsData choicesData) in
        if length valid = 0 then None
        else
          let shuffled = sort_random valid;
              selected = take 5 shuffled
          in Some selected)"

subsection \<open>Navigation and answer selection\<close>

definition handleAnswerSelect :: "string \<Rightarrow> string \<Rightarrow> test_state \<Rightarrow> test_state" where
  "handleAnswerSelect qid a s = s\<lparr>selectedAnswers := (selectedAnswers s)(qid \<mapsto> a)\<rparr>"

definition handleNextQuestion :: "test_state \<Rightarrow> test_state" where
  "handleNextQuestion s =
     (if currentQuestionIndex s < int (length (questions s)) - 1
      then s\<lparr>currentQuestionIndex := currentQuestionIndex s + 1\<rparr>
      else s)"

definition handlePreviousQuestion :: "test_state \<Rightarrow> test_state" where
  "handlePreviousQuestion s =
     (if currentQuestionIndex s > 0
      then s\<lparr>currentQuestionIndex := currentQuestionIndex s - 1\<rparr>
      else s)"

datatype event = Next | Previous | Select string string

fun handle :: "test_state \<Rightarrow> event \<Rightarrow> test_state" where
  "handle s Next = handleNextQuestion s"
| "handle s Previous = handlePreviousQuestion s"
| "handle s (Select qid a) = handleAnswerSelect qid a s"

definition run :: "test_state \<Rightarrow> event list \<Rightarrow> test_state" where
  "run s evs = foldl handle s evs"

subsection \<open>\<open>handleSubmit\<close>: scoring\<close>

text \<open>
  \<open>question.choices.find(choice => choice.is_correct)\<close> is the first choice marked correct,
  or \<open>undefined\<close>; \<open>selectedAnswer === correctChoice?.choice\<close> compares two values each of
  which may be \<open>undefined\<close>, and \<open>undefined === undefined\<close> holds.
\<close>

definition correctChoice :: "question \<Rightarrow> choice option" where
  "correctChoice q = find c_is_correct (choices q)"

definition answerIsCorrect :: "(string \<rightharpoonup> string) \<Rightarrow> question \<Rightarrow> bool" where
  "answerIsCorrect sel q \<longleftrightarrow> sel (q_id q) = map_option c_choice (correctChoice q)"

text \<open>
  One row of \<open>assessment_results\<close>. The generated identifiers and the student and
  assessment identifiers of the row play no part in the score and are left out.
\<close>

record assessment_result =
  r_question_id :: string
  r_is_correct :: bool
  r_difficulty_level :: int

definition assessmentResults :: "test_state \<Rightarrow> assessment_result list" where
  "assessmentResults s =
     map (\<lambda>q. \<lparr>r_question_id = q_id q, r_is_correct = answerIsCorrect (selectedAnswers s) q,
               r_difficulty_level = difficulty q\<rparr>)
         (questions s)"

text \<open>
  The remote calls of \<open>handleSubmit\<close>, in the order it makes them; each flag says whether
  the call delivered what the handler needs. A failed call throws, the \<open>catch\<close> block
  alerts, and \<open>testResult\<close> keeps its value.
\<close>

record remote =
  getUser_ok :: bool
  userData_ok :: bool
  assessment_ok :: bool
  results_ok :: bool

definition handleSubmit :: "remote \<Rightarrow> test_state \<Rightarrow> test_state" where
  "handleSubmit r s =
     (if length (questions s) = 0 then s
      else if \<not> getUser_ok r then s
      else if \<not> userData_ok r then s
      else if \<not> assessment_ok r then s
      else
        let results = assessmentResults s in
        if \<not> results_ok r then s
        else
          s\<lparr>testResult := Some
              \<lparr>score = length (filter r_is_correct results),
               total = length (questions s),
               answers = map (\<lambda>q. \<lparr>questionId = q_id q,
                                     selectedAnswer = (case selectedAnswers s (q_id q) of
                                                         None \<Rightarrow> '''' | Some a \<Rightarrow> a),
                                     isCorrect = answerIsCorrect (selectedAnswers s) q\<rparr>)
                             (questions s)\<rparr>\<rparr>)"

subsection \<open>Example tests\<close>

definition example_choice :: "string \<Rightarrow> string \<Rightarrow> string \<Rightarrow> bool \<Rightarrow> choice" where
  "example_choice i q t b = \<lparr>c_id = i, c_question_id = q, c_choice = t, c_is_correct = b\<rparr>"

definition example_question :: "string \<Rightarrow> choice list \<Rightarrow> question" where
  "example_question i cs =
     \<lparr>q_id = i, content = ''What is a queue?'', explanation = ''First in, first out.'',
      difficulty = 1, choices = cs\<rparr>"

definition example_questions :: "question list" where
  "example_questions =
     [example_question ''q1''
        [example_choice ''c1'' ''q1'' ''FIFO'' True, example_choice ''c2'' ''q1'' ''LIFO'' False],
      example_question ''q2''
        [example_choice ''c3'' ''q2'' ''Stack'' False, example_choice ''c4'' ''q2'' ''Queue'' True]]"

definition example_state :: test_state where
  "example_state =
     \<lparr>questions = example_questions, selectedAnswers = Map.empty, currentQuestionIndex = 0,
      testResult = None\<rparr>"

definition example_row :: "string \<Rightarrow> question_row" where
  "example_row i =
     \<lparr>row_id = i, row_content = ''What is a queue?'', row_explanation = ''First in, first out.'',
      row_difficulty = 1\<rparr>"

definition example_rows :: "question_row list" where
  "example_rows = map example_row [''q1'', ''q2'', ''q3'', ''q4'', ''q5'', ''q6'', ''q7'', ''q8'']"

text \<open>
  Six questions with one correct choice out of two, \<open>q7\<close> with no correct choice and
  \<open>q8\<close> with no choice at all.
\<close>

definition example_choices :: "choice list" where
  "example_choices =
     concat (map (\<lambda>i. [example_choice (i @ ''a'') i ''FIFO'' True,
                         example_choice (i @ ''b'') i ''LIFO'' False])
                 [''q1'', ''q2'', ''q3'', ''q4'', ''q5'', ''q6''])
     @ [example_choice ''q7a'' ''q7'' ''LIFO'' False]"

definition two_correct_choices :: "choice list" where
  "two_correct_choices =
     [example_choice ''c1'' ''q1'' ''FIFO'' True, example_choice ''c2'' ''q1'' ''First in, first out'' True]"

definition example_answered :: test_state where
  "example_answered =
     \<lparr>questions = example_questions,
      selectedAnswers = [''q1'' \<mapsto> ''FIFO'', ''q2'' \<mapsto> ''Stack''],
      currentQuestionIndex = 1, testResult = None\<rparr>"

definition example_all_correct :: test_state where
  "example_all_correct =
     \<lparr>questions = example_questions,
      selectedAnswers = [''q1'' \<mapsto> ''FIFO'', ''q2'' \<mapsto> ''Queue''],
      currentQuestionIndex = 1, testResult = None\<rparr>"

definition all_ok :: remote where
  "all_ok = \<lparr>getUser_ok = True, userData_ok = True, assessment_ok = True, results_ok = True\<rparr>"

section \<open>The question generation endpoints\<close>

text \<open>
  The two endpoints, \<open>handler\<close> and \<open>POST\<close>, check the request, send the prompt to the
  provider and concatenate the streamed fragments into \<open>fullResponse\<close>. The definitions below
  start there: each is what its endpoint answers for a given \<open>fullResponse\<close>.
\<close>

subsection \<open>JavaScript values\<close>

text \<open>
  A value that \<open>JSON.parse\<close> returns. The type \<open>'n\<close> is the type of numbers (IEEE doubles in
  the engine); the handlers only ask of a number whether it is zero, and whether it is the
  same number as another one. An object is the list of its own properties, read with
  \<open>map_of\<close>.
\<close>

datatype 'n json =
    JNull
  | JBool bool
  | JNum 'n
  | JStr string
  | JArr "'n json list"
  | JObj "(string \<times> 'n json) list"

text \<open>
  A value of an expression of the handlers: \<open>undefined\<close>, a parsed value, the string
  \<open>JSON.stringify\<close> returns for a parsed value (kept as that value, not as its text), or one of
  the two kinds of value that a property read of the object literal \<open>difficultyMap\<close> can
  find on its prototype: a built-in function, named by the property, and the prototype
  object itself.
\<close>

datatype 'n jsval =
    Undefined
  | Json "'n json"
  | Json_text "'n json"
  | Builtin_function string
  | Object_prototype

type_synonym 'n object = "(string \<times> 'n json) list"

text \<open>An error object that is thrown and caught.\<close>

datatype js_error =
    SyntaxError
  | TypeError_read_undefined string
  | TypeError_read_null string
  | TypeError_not_a_function string
  | Error string

datatype 'n response = Response (status: nat) (body: "(string \<times> 'n jsval) list")

text \<open>\<open>res.status(code).json({ error: msg })\<close> and \<open>NextResponse.json({ error: msg }, { status: code })\<close>\<close>

definition error_response :: "nat \<Rightarrow> string \<Rightarrow> 'n response" where
  "error_response code msg = Response code [(''error'', Json (JStr msg))]"

fun truthy_json :: "'n::zero json \<Rightarrow> bool" where
  "truthy_json JNull = False"
| "truthy_json (JBool b) = b"
| "truthy_json (JNum n) = (n \<noteq> 0)"
| "truthy_json (JStr s) = (s \<noteq> [])"
| "truthy_json (JArr xs) = True"
| "truthy_json (JObj ps) = True"

text \<open>
  \<open>data.k\<close> for a parsed object \<open>data\<close> and a key that \<open>Object.prototype\<close> does not have;
  \<open>None\<close> is \<open>undefined\<close>.
\<close>

definition get :: "'n object \<Rightarrow> string \<Rightarrow> 'n json option" where
  "get data k = map_of data k"

fun truthy :: "'n::zero json option \<Rightarrow> bool" where
  "truthy None = False"
| "truthy (Some v) = truthy_json v"

fun js_value :: "'n json option \<Rightarrow> 'n jsval" where
  "js_value None = Undefined"
| "js_value (Some v) = Json v"

text \<open>The values on the left of \<open>||\<close> in \<open>difficultyMap[...] || '1'\<close>.\<close>

fun truthy_value :: "'n::zero jsval \<Rightarrow> bool" where
  "truthy_value Undefined = False"
| "truthy_value (Json v) = truthy_json v"
| "truthy_value (Json_text v) = True"
| "truthy_value (Builtin_function f) = True"
| "truthy_value Object_prototype = True"

text \<open>
  The comparison of \<open>Array.prototype.includes\<close>. Arrays and objects are compared by identity,
  and two values inside one parsed text are never the same array or object.
\<close>

fun same_value_zero :: "'n json \<Rightarrow> 'n json \<Rightarrow> bool" where
  "same_value_zero JNull JNull = True"
| "same_value_zero (JBool a) (JBool b) = (a = b)"
| "same_value_zero (JNum a) (JNum b) = (a = b)"
| "same_value_zero (JStr a) (JStr b) = (a = b)"
| "same_value_zero _ _ = False"

fun array_includes :: "'n json list \<Rightarrow> 'n json option \<Rightarrow> bool" where
  "array_includes xs (Some v) = list_ex (\<lambda>x. same_value_zero x v) xs"
| "array_includes xs None = False"

text \<open>\<open>String.prototype.includes\<close>\<close>

definition str_includes :: "string \<Rightarrow> string \<Rightarrow> bool" where
  "str_includes s pat = sublist pat s"

text \<open>
  \<open>String.prototype.toLowerCase\<close>, on the letters A to Z. The only use of the result is as a
  key of \<open>difficultyMap\<close>, where the keys \<open>easy\<close>, \<open>medium\<close>, \<open>hard\<close>, \<open>constructor\<close> and
  \<open>__proto__\<close> are found. No other character is turned into a character of these keys, so
  leaving the other characters as they are does not change which key is found.
\<close>

definition lower_char :: "char \<Rightarrow> char" where
  "lower_char c =
     (case map_of (zip ''ABCDEFGHIJKLMNOPQRSTUVWXYZ'' ''abcdefghijklmnopqrstuvwxyz'') c of
        None \<Rightarrow> c | Some l \<Rightarrow> l)"

definition toLowerCase :: "string \<Rightarrow> string" where
  "toLowerCase s = map lower_char s"

subsection \<open>The match of \<open>/\{[\s\S]*?\}/\<close>\<close>

text \<open>
  \<open>lazy_to_close s\<close> matches \<open>[\s\S]*?\}\<close> at the start of \<open>s\<close>: the lazy star takes no
  character when a closing brace comes next and one more character otherwise.
  \<open>regex_match s\<close> is \<open>s.match(/\{[\s\S]*?\}/)\<close>: the match is tried at every position from
  the left, \<open>None\<close> is \<open>null\<close>, and \<open>Some m\<close> carries the matched text \<open>jsonMatch[0]\<close>.
\<close>

fun lazy_to_close :: "string \<Rightarrow> string option" where
  "lazy_to_close [] = None"
| "lazy_to_close (c # cs) =
     (if c = CHR ''}'' then Some [c] else map_option ((#) c) (lazy_to_close cs))"

fun regex_match :: "string \<Rightarrow> string option" where
  "regex_match [] = None"
| "regex_match (c # cs) =
     (case (if c = CHR ''{'' then map_option ((#) c) (lazy_to_close cs) else None) of
        Some m \<Rightarrow> Some m
      | None \<Rightarrow> regex_match cs)"

subsection \<open>The difficulty label\<close>

text \<open>
  \<open>const difficultyMap = { easy: '1', medium: '2', hard: '3' }\<close> is an ordinary object, so
  \<open>difficultyMap[key]\<close> also finds what the object inherits from \<open>Object.prototype\<close>.
\<close>

definition Object_prototype_functions :: "string list" where
  "Object_prototype_functions =
     [''constructor'', ''__defineGetter__'', ''__defineSetter__'', ''hasOwnProperty'',
      ''__lookupGetter__'', ''__lookupSetter__'', ''isPrototypeOf'', ''propertyIsEnumerable'',
      ''toString'', ''valueOf'', ''toLocaleString'']"

definition difficultyMap :: "string \<Rightarrow> 'n jsval" where
  "difficultyMap key =
     (if key = ''easy'' then Json (JStr ''1'')
      else if key = ''medium'' then Json (JStr ''2'')
      else if key = ''hard'' then Json (JStr ''3'')
      else if key = ''__proto__'' then Object_prototype
      else if key \<in> set Object_prototype_functions then Builtin_function key
      else Undefined)"

text \<open>
  \<open>data.difficulty.toLowerCase()\<close>: reading the method of \<open>undefined\<close> or \<open>null\<close> throws, and
  so does calling what any parsed value but a string has under that name.
\<close>

fun difficulty_toLowerCase :: "'n json option \<Rightarrow> js_error + string" where
  "difficulty_toLowerCase None = Inl (TypeError_read_undefined ''toLowerCase'')"
| "difficulty_toLowerCase (Some JNull) = Inl (TypeError_read_null ''toLowerCase'')"
| "difficulty_toLowerCase (Some (JStr s)) = Inr (toLowerCase s)"
| "difficulty_toLowerCase (Some _) = Inl (TypeError_not_a_function ''toLowerCase'')"

text \<open>\<open>difficultyMap[data.difficulty.toLowerCase()] || '1'\<close>\<close>

definition mapped_difficulty :: "'n::zero object \<Rightarrow> js_error + 'n jsval" where
  "mapped_difficulty data =
     (case difficulty_toLowerCase (get data ''difficulty'') of
        Inl e \<Rightarrow> Inl e
      | Inr key \<Rightarrow> Inr (if truthy_value (difficultyMap key :: 'n jsval) then difficultyMap key
                         else Json (JStr ''1'')))"

text \<open>
  The code that the specification gives to a label: "easy", "medium" and "hard", compared
  without regard to case, have the codes 1, 2 and 3, and every other label has the code 1.
  The handlers send the code as a string.
\<close>

definition spec_difficulty_code :: "string \<Rightarrow> string" where
  "spec_difficulty_code label =
     (if toLowerCase label = ''easy'' then ''1''
      else if toLowerCase label = ''medium'' then ''2''
      else if toLowerCase label = ''hard'' then ''3''
      else ''1'')"

subsection \<open>\<open>handler\<close> (pages/api/auto-generate-question.ts), from the accumulated response on\<close>

text \<open>
  The parameter \<open>JSON_parse\<close> is the built-in \<open>JSON.parse\<close> on the matched text. That text
  starts with an opening brace, so the built-in either throws (\<open>None\<close>) or returns an object
  (\<open>Some\<close> of its properties).
\<close>

definition handler_invalid :: "'n::zero object \<Rightarrow> bool" where
  "handler_invalid data \<longleftrightarrow>
     \<not> truthy (get data ''question'') \<or>
     (case get data ''options'' of
        Some (JArr options) \<Rightarrow>
          length options < 2 \<or>
          \<not> truthy (get data ''answer'') \<or>
          \<not> array_includes options (get data ''answer'')
      | _ \<Rightarrow> True)"

text \<open>\<open>JSON.stringify\<close> of what a property read gave; of \<open>undefined\<close> it is \<open>undefined\<close>.\<close>

fun stringify :: "'n json option \<Rightarrow> 'n jsval" where
  "stringify None = Undefined"
| "stringify (Some v) = Json_text v"

text \<open>\<open>{ ...data, difficulty: ..., options: JSON.stringify(data.options) }\<close>\<close>

definition handler_mappedData :: "'n::zero object \<Rightarrow> js_error + (string \<times> 'n jsval) list" where
  "handler_mappedData data =
     (case mapped_difficulty data of
        Inl e \<Rightarrow> Inl e
      | Inr d \<Rightarrow>
          Inr (AList.update ''options'' (stringify (get data ''options''))
                 (AList.update ''difficulty'' d (map (\<lambda>(k, v). (k, Json v)) data))))"

text \<open>The \<open>catch\<close> block of the inner \<open>try\<close>: whatever was thrown, the answer is the same.\<close>

definition handler_catch :: "js_error \<Rightarrow> 'n response" where
  "handler_catch error =
     error_response 500 ''Failed to generate question. Please check your API key and configuration.''"

definition handler_on_data :: "'n::zero object \<Rightarrow> 'n response" where
  "handler_on_data data =
     (if handler_invalid data
      then error_response 500 ''Invalid question structure or answer mismatch''
      else case handler_mappedData data of
             Inl e \<Rightarrow> handler_catch e
           | Inr mappedData \<Rightarrow> Response 200 mappedData)"

definition handler_on_response :: "(string \<Rightarrow> 'n::zero object option) \<Rightarrow> string \<Rightarrow> 'n response" where
  "handler_on_response JSON_parse fullResponse =
     (if str_includes fullResponse ''<!DOCTYPE'' \<or> str_includes fullResponse ''<html''
      then error_response 500
             ''API returned an error page. Please check your API key and configuration.''
      else case regex_match fullResponse of
             None \<Rightarrow> error_response 500 ''Invalid response format from the API''
           | Some jsonMatch \<Rightarrow>
               (case JSON_parse jsonMatch of
                  None \<Rightarrow> handler_catch SyntaxError
                | Some data \<Rightarrow> handler_on_data data))"

subsection \<open>\<open>POST\<close> (the route handler), from the accumulated response on\<close>

text \<open>
  The callback \<open>(c: any) => c.is_correct\<close>, with its result read as a condition. Reading a
  property of \<open>null\<close> throws; a boolean, number, string or array has no such property.
\<close>

fun is_correct :: "'n::zero json \<Rightarrow> js_error + bool" where
  "is_correct JNull = Inl (TypeError_read_null ''is_correct'')"
| "is_correct (JObj ps) = Inr (truthy (get ps ''is_correct''))"
| "is_correct _ = Inr False"

text \<open>\<open>Array.prototype.some\<close> and \<open>Array.prototype.filter\<close> with a callback that may throw.\<close>

fun js_some :: "('a \<Rightarrow> js_error + bool) \<Rightarrow> 'a list \<Rightarrow> js_error + bool" where
  "js_some f [] = Inr False"
| "js_some f (x # xs) =
     (case f x of Inl e \<Rightarrow> Inl e | Inr b \<Rightarrow> if b then Inr True else js_some f xs)"

fun js_filter :: "('a \<Rightarrow> js_error + bool) \<Rightarrow> 'a list \<Rightarrow> js_error + 'a list" where
  "js_filter f [] = Inr []"
| "js_filter f (x # xs) =
     (case f x of
        Inl e \<Rightarrow> Inl e
      | Inr b \<Rightarrow>
          (case js_filter f xs of
             Inl e \<Rightarrow> Inl e
           | Inr ys \<Rightarrow> Inr (if b then x # ys else ys)))"

text \<open>The condition of the validating \<open>if\<close>; \<open>||\<close> evaluates from the left and stops early.\<close>

definition POST_invalid :: "'n::zero object \<Rightarrow> js_error + bool" where
  "POST_invalid data =
     (if \<not> truthy (get data ''question'') then Inr True
      else case get data ''choices'' of
             Some (JArr cs) \<Rightarrow>
               if length cs < 2 then Inr True
               else (case js_some is_correct cs of
                       Inl e \<Rightarrow> Inl e
                     | Inr found \<Rightarrow>
                         if \<not> found then Inr True
                         else (case js_filter is_correct cs of
                                 Inl e \<Rightarrow> Inl e
                               | Inr correct \<Rightarrow> Inr (length correct \<noteq> 1)))
           | _ \<Rightarrow> Inr True)"

definition POST_mappedData :: "'n::zero object \<Rightarrow> js_error + (string \<times> 'n jsval) list" where
  "POST_mappedData data =
     (case mapped_difficulty data of
        Inl e \<Rightarrow> Inl e
      | Inr d \<Rightarrow>
          Inr [(''question'', js_value (get data ''question'')),
               (''choices'', js_value (get data ''choices'')),
               (''explanation'', js_value (get data ''explanation'')),
               (''difficulty'', d)])"

text \<open>
  \<open>error.message\<close>: the text of \<open>new Error(text)\<close>, and for an error the engine throws the
  text the engine gives it, which is the parameter \<open>message\<close>.
\<close>

definition error_message :: "(js_error \<Rightarrow> string) \<Rightarrow> js_error \<Rightarrow> string" where
  "error_message message e = (case e of Error text \<Rightarrow> text | _ \<Rightarrow> message e)"

definition POST_catch :: "(js_error \<Rightarrow> string) \<Rightarrow> js_error \<Rightarrow> 'n response" where
  "POST_catch message e =
     (if str_includes (error_message message e) ''401''
      then error_response 500
             ''Invalid API key. Please check your Together.ai API key configuration.''
      else if str_includes (error_message message e) ''429''
      then error_response 500 ''API rate limit exceeded. Please try again later.''
      else if str_includes (error_message message e) ''500''
      then error_response 500
             ''API service is currently unavailable. Please try again later.''
      else error_response 500
             ''Failed to generate question. Please check your API key and configuration.'')"

definition POST_on_data :: "(js_error \<Rightarrow> string) \<Rightarrow> 'n::zero object \<Rightarrow> 'n response" where
  "POST_on_data message data =
     (case POST_invalid data of
        Inl e \<Rightarrow> POST_catch message e
      | Inr invalid \<Rightarrow>
          if invalid
          then error_response 500
                 ''Invalid question structure. Must have exactly one correct choice.''
          else (case POST_mappedData data of
                  Inl e \<Rightarrow> POST_catch message e
                | Inr mappedData \<Rightarrow> Response 200 mappedData))"

text \<open>
  The inner \<open>try\<close> around the match and the parse: \<open>throw new Error('No JSON found in
  response')\<close> and whatever \<open>JSON.parse\<close> throws are caught by the same block.
\<close>

definition POST_on_response ::
  "(string \<Rightarrow> 'n::zero object option) \<Rightarrow> (js_error \<Rightarrow> string) \<Rightarrow> string \<Rightarrow> 'n response"
where
  "POST_on_response JSON_parse message fullResponse =
     (if str_includes fullResponse ''<!DOCTYPE'' \<or> str_includes fullResponse ''<html''
      then error_response 500
             ''API returned an error page. Please check your API key and configuration.''
      else case (case regex_match fullResponse of
                   None \<Rightarrow> Inl (Error ''No JSON found in response'')
                 | Some jsonMatch \<Rightarrow>
                     (case JSON_parse jsonMatch of
                        None \<Rightarrow> Inl SyntaxError
                      | Some data \<Rightarrow> Inr data)) of
             Inl parseError \<Rightarrow>
               error_response 500 ''Invalid response format from the API. Please try again.''
           | Inr data \<Rightarrow> POST_on_data message data)"

subsection \<open>A reference engine\<close>

text \<open>
  The theorems about the handlers hold for every \<open>JSON_parse\<close> and \<open>message\<close>. To run the
  handlers on a response, the two are here spelt out for the texts of the examples: a parser
  of the JSON grammar (ECMA-404) without \<open>\u\<close> escapes, with numbers as rationals, and the
  messages of the V8 engine.
\<close>

definition is_ws :: "char \<Rightarrow> bool" where
  "is_ws c \<longleftrightarrow> c \<in> set [CHR '' '', CHR 0x09, CHR 0x0A, CHR 0x0D]"

definition skip_ws :: "string \<Rightarrow> string" where
  "skip_ws s = dropWhile is_ws s"

definition is_digit :: "char \<Rightarrow> bool" where
  "is_digit c \<longleftrightarrow> c \<in> set ''0123456789''"

definition digit_value :: "char \<Rightarrow> nat" where
  "digit_value c = (case map_of (zip ''0123456789'' [0, 1, 2, 3, 4, 5, 6, 7, 8, 9]) c of
                      None \<Rightarrow> 0 | Some d \<Rightarrow> d)"

definition digits_value :: "string \<Rightarrow> nat" where
  "digits_value ds = foldl (\<lambda>n c. 10 * n + digit_value c) 0 ds"

definition unescape :: "char \<Rightarrow> char option" where
  "unescape c =
     map_of [(CHR 0x22, CHR 0x22), (CHR 0x5C, CHR 0x5C), (CHR ''/'', CHR ''/''),
             (CHR ''b'', CHR 0x08), (CHR ''f'', CHR 0x0C), (CHR ''n'', CHR 0x0A),
             (CHR ''r'', CHR 0x0D), (CHR ''t'', CHR 0x09)] c"

text \<open>The characters of a string literal after its opening quote, and the rest of the text.\<close>

fun parse_string :: "string \<Rightarrow> (string \<times> string) option" where
  "parse_string [] = None"
| "parse_string (c # cs) =
     (if c = CHR 0x22 then Some ([], cs)
      else if c = CHR 0x5C then
        (case cs of
           [] \<Rightarrow> None
         | e # cs' \<Rightarrow>
             (case unescape e of
                None \<Rightarrow> None
              | Some d \<Rightarrow> map_option (\<lambda>(t, r). (d # t, r)) (parse_string cs')))
      else if (of_char c :: nat) < 32 then None
      else map_option (\<lambda>(t, r). (c # t, r)) (parse_string cs))"

definition parse_number :: "string \<Rightarrow> (rat \<times> string) option" where
  "parse_number s =
     (let neg = prefix ''-'' s;
          s1 = (if neg then tl s else s);
          ip = takeWhile is_digit s1;
          s2 = dropWhile is_digit s1;
          has_frac = prefix ''.'' s2;
          fp = (if has_frac then takeWhile is_digit (tl s2) else []);
          s3 = (if has_frac then dropWhile is_digit (tl s2) else s2);
          has_exp = (prefix ''e'' s3 \<or> prefix ''E'' s3);
          s4 = (if has_exp then tl s3 else s3);
          exp_neg = (has_exp \<and> prefix ''-'' s4);
          s5 = (if has_exp \<and> (prefix ''-'' s4 \<or> prefix ''+'' s4) then tl s4 else s4);
          ep = (if has_exp then takeWhile is_digit s5 else []);
          s6 = (if has_exp then dropWhile is_digit s5 else s3)
      in if ip = [] \<or> (1 < length ip \<and> prefix ''0'' ip) \<or> (has_frac \<and> fp = []) \<or>
            (has_exp \<and> ep = [])
         then None
         else Some ((if neg then - 1 else 1) *
                    (of_nat (digits_value (ip @ fp)) / 10 ^ length fp) *
                    (if exp_neg then 1 / 10 ^ digits_value ep else 10 ^ digits_value ep),
                    s6))"

text \<open>A later member with the same key replaces the value of an earlier one.\<close>

definition add_member :: "string \<Rightarrow> 'n json \<Rightarrow> 'n object \<Rightarrow> 'n object" where
  "add_member k v ms = (k, case map_of ms k of None \<Rightarrow> v | Some w \<Rightarrow> w) # AList.delete k ms"

text \<open>
  The first argument bounds the number of nested calls; every call consumes a character, so
  the length of the text is enough.
\<close>

fun parse_value :: "nat \<Rightarrow> string \<Rightarrow> (rat json \<times> string) option"
  and parse_elements :: "nat \<Rightarrow> string \<Rightarrow> (rat json list \<times> string) option"
  and parse_members :: "nat \<Rightarrow> string \<Rightarrow> (rat object \<times> string) option"
where
  "parse_value 0 s = None"
| "parse_value (Suc n) s =
     (case skip_ws s of
        [] \<Rightarrow> None
      | c # cs \<Rightarrow>
          if c = CHR ''{'' then
            (if prefix ''}'' (skip_ws cs) then Some (JObj [], tl (skip_ws cs))
             else map_option (\<lambda>(ms, r). (JObj ms, r)) (parse_members n cs))
          else if c = CHR ''['' then
            (if prefix '']'' (skip_ws cs) then Some (JArr [], tl (skip_ws cs))
             else map_option (\<lambda>(vs, r). (JArr vs, r)) (parse_elements n cs))
          else if c = CHR 0x22 then map_option (\<lambda>(t, r). (JStr t, r)) (parse_string cs)
          else if prefix ''true'' (c # cs) then Some (JBool True, drop 4 (c # cs))
          else if prefix ''false'' (c # cs) then Some (JBool False, drop 5 (c # cs))
          else if prefix ''null'' (c # cs) then Some (JNull, drop 4 (c # cs))
          else map_option (\<lambda>(x, r). (JNum x, r)) (parse_number (c # cs)))"
| "parse_elements 0 s = None"
| "parse_elements (Suc n) s =
     (case parse_value n s of
        None \<Rightarrow> None
      | Some (v, r) \<Rightarrow>
          if prefix '','' (skip_ws r)
          then map_option (\<lambda>(vs, r'). (v # vs, r')) (parse_elements n (tl (skip_ws r)))
          else if prefix '']'' (skip_ws r) then Some ([v], tl (skip_ws r))
          else None)"
| "parse_members 0 s = None"
| "parse_members (Suc n) s =
     (if \<not> prefix [CHR 0x22] (skip_ws s) then None
      else case parse_string (tl (skip_ws s)) of
             None \<Rightarrow> None
           | Some (k, r) \<Rightarrow>
               if \<not> prefix '':'' (skip_ws r) then None
               else (case parse_value n (tl (skip_ws r)) of
                       None \<Rightarrow> None
                     | Some (v, r') \<Rightarrow>
                         if prefix '','' (skip_ws r')
                         then map_option (\<lambda>(ms, r''). (add_member k v ms, r''))
                                (parse_members n (tl (skip_ws r')))
                         else if prefix ''}'' (skip_ws r') then Some ([(k, v)], tl (skip_ws r'))
                         else None))"

definition reference_JSON_parse :: "string \<Rightarrow> rat object option" where
  "reference_JSON_parse s =
     (case parse_value (Suc (length s)) s of
        Some (JObj ms, r) \<Rightarrow> if skip_ws r = [] then Some ms else None
      | _ \<Rightarrow> None)"

definition v8_message :: "js_error \<Rightarrow> string" where
  "v8_message e =
     (case e of
        SyntaxError \<Rightarrow> ''Unexpected end of JSON input''
      | TypeError_read_undefined p \<Rightarrow>
          ''Cannot read properties of undefined (reading '' @ [CHR 0x27] @ p @ [CHR 0x27] @ '')''
      | TypeError_read_null p \<Rightarrow>
          ''Cannot read properties of null (reading '' @ [CHR 0x27] @ p @ [CHR 0x27] @ '')''
      | TypeError_not_a_function p \<Rightarrow> ''data.difficulty.'' @ p @ '' is not a function''
      | Error text \<Rightarrow> text)"

subsection \<open>Example responses\<close>

definition options_response :: string where
  "options_response =
     ''{\"question\":\"What is a queue?\",\"options\":[\"FIFO\",\"LIFO\"],\"answer\":\"FIFO\",\"explanation\":\"First in, first out.\",\"difficulty\":\"Medium\"}''"

definition options_data :: "rat object" where
  "options_data =
     [(''question'', JStr ''What is a queue?''), (''options'', JArr [JStr ''FIFO'', JStr ''LIFO'']),
      (''answer'', JStr ''FIFO''), (''explanation'', JStr ''First in, first out.''),
      (''difficulty'', JStr ''Medium'')]"

definition choices_response :: string where
  "choices_response =
     ''{\"question\":\"What is a queue?\",\"choices\":[{\"choice\":\"FIFO\",\"is_correct\":true},{\"choice\":\"LIFO\",\"is_correct\":false}],\"explanation\":\"First in, first out.\",\"difficulty\":\"easy\"}''"

definition choices_truncated :: string where
  "choices_truncated =
     ''{\"question\":\"What is a queue?\",\"choices\":[{\"choice\":\"FIFO\",\"is_correct\":true}''"

definition choices_data :: "rat object" where
  "choices_data =
     [(''question'', JStr ''What is a queue?''),
      (''choices'', JArr [JObj [(''choice'', JStr ''FIFO''), (''is_correct'', JBool True)],
                          JObj [(''choice'', JStr ''LIFO''), (''is_correct'', JBool False)]]),
      (''explanation'', JStr ''First in, first out.''), (''difficulty'', JStr ''easy'')]"

definition uppercase_html_response :: string where
  "uppercase_html_response = ''<HTML><BODY>'' @ options_response @ ''</BODY></HTML>''"

definition lowercase_doctype_response :: string where
  "lowercase_doctype_response =
     ''<!doctype html><title>Bad gateway</title>'' @ options_response"

definition html_and_json_response :: string where
  "html_and_json_response = ''<html><body>'' @ options_response @ ''</body></html>''"

definition options_data_without_difficulty :: "rat object" where
  "options_data_without_difficulty =
     [(''question'', JStr ''What is a queue?''), (''options'', JArr [JStr ''FIFO'', JStr ''LIFO'']),
      (''answer'', JStr ''FIFO''), (''explanation'', JStr ''First in, first out.'')]"

definition choices_data_without_difficulty :: "rat object" where
  "choices_data_without_difficulty =
     [(''question'', JStr ''What is a queue?''),
      (''choices'', JArr [JObj [(''choice'', JStr ''FIFO''), (''is_correct'', JBool True)],
                          JObj [(''choice'', JStr ''LIFO''), (''is_correct'', JBool False)]]),
      (''explanation'', JStr ''First in, first out.'')]"

definition numeric_question_data :: "rat object" where
  "numeric_question_data =
     [(''question'', JNum 7), (''options'', JArr [JStr ''FIFO'', JStr ''LIFO'']),
      (''answer'', JStr ''FIFO''), (''difficulty'', JStr ''easy'')]"

definition constructor_label_data :: "rat object" where
  "constructor_label_data =
     [(''question'', JStr ''What is a queue?''), (''options'', JArr [JStr ''FIFO'', JStr ''LIFO'']),
      (''answer'', JStr ''FIFO''), (''difficulty'', JStr ''Constructor'')]"

section \<open>Properties of the student test page\<close>

subsection \<open>Navigation\<close>

lemma handle_questions [simp]: "questions (handle s e) = questions s"
  by (cases e) (simp_all add: handleNextQuestion_def handlePreviousQuestion_def handleAnswerSelect_def)

lemma run_questions [simp]: "questions (run s evs) = questions s"
  unfolding run_def by (induction evs arbitrary: s) simp_all

lemma handle_keeps_range:
  assumes "0 \<le> currentQuestionIndex s" and "currentQuestionIndex s < int (length (questions s))"
  shows "0 \<le> currentQuestionIndex (handle s e) \<and>
         currentQuestionIndex (handle s e) < int (length (questions s))"
  using assms
  by (cases e) (auto simp add: handleNextQuestion_def handlePreviousQuestion_def handleAnswerSelect_def)

lemma run_keeps_range:
  assumes "0 \<le> currentQuestionIndex s" and "currentQuestionIndex s < int (length (questions s))"
  shows "0 \<le> currentQuestionIndex (run s evs) \<and>
         currentQuestionIndex (run s evs) < int (length (questions s))"
  using assms
proof (induction evs arbitrary: s)
  case Nil
  then show ?case by (simp add: run_def)
next
  case (Cons e evs)
  have step: "0 \<le> currentQuestionIndex (handle s e) \<and>
         currentQuestionIndex (handle s e) < int (length (questions (handle s e)))"
    using handle_keeps_range [OF Cons.prems] by simp
  have "run s (e # evs) = run (handle s e) evs"
    by (simp add: run_def)
  with Cons.IH [of "handle s e"] step show ?case by simp
qed

text \<open>
  Claim C9. In a quiz of \<open>N \<ge> 1\<close> questions that starts at index 0, after any sequence of
  "next", "previous" and answer-selection events the current index is in \<open>[0, N)\<close>. "Next"
  adds one exactly when the index is below \<open>N - 1\<close>, "previous" subtracts one exactly when
  it is above 0, and neither touches the answers. An answer selection leaves the index, the
  questions and the result alone and changes the answer mapping at the selected question
  only, where the new answer replaces whatever was there.
\<close>

theorem navigation_index_in_range:
  assumes "1 \<le> length (questions s)" and "currentQuestionIndex s = 0"
  shows "0 \<le> currentQuestionIndex (run s evs) \<and>
         currentQuestionIndex (run s evs) < int (length (questions s)) \<and>
         (\<forall>t. currentQuestionIndex (handle t Next) =
                (if currentQuestionIndex t < int (length (questions t)) - 1
                 then currentQuestionIndex t + 1 else currentQuestionIndex t) \<and>
              selectedAnswers (handle t Next) = selectedAnswers t) \<and>
         (\<forall>t. currentQuestionIndex (handle t Previous) =
                (if 0 < currentQuestionIndex t
                 then currentQuestionIndex t - 1 else currentQuestionIndex t) \<and>
              selectedAnswers (handle t Previous) = selectedAnswers t) \<and>
         (\<forall>t qid a. currentQuestionIndex (handle t (Select qid a)) = currentQuestionIndex t \<and>
              questions (handle t (Select qid a)) = questions t \<and>
              testResult (handle t (Select qid a)) = testResult t \<and>
              selectedAnswers (handle t (Select qid a)) qid = Some a \<and>
              (\<forall>k. k \<noteq> qid \<longrightarrow> selectedAnswers (handle t (Select qid a)) k = selectedAnswers t k))"
proof -
  have "0 \<le> currentQuestionIndex s" and "currentQuestionIndex s < int (length (questions s))"
    using assms by auto
  from run_keeps_range [OF this]
  show ?thesis
    by (simp add: handleNextQuestion_def handlePreviousQuestion_def handleAnswerSelect_def)
qed

theorem navigation_index_in_range_witness:
  "1 \<le> length (questions example_state) \<and> currentQuestionIndex example_state = 0 \<and>
   0 \<le> currentQuestionIndex (run example_state [Next, Next, Select ''q2'' ''Queue'', Previous, Previous]) \<and>
   currentQuestionIndex (run example_state [Next, Next, Select ''q2'' ''Queue'', Previous, Previous])
     < int (length (questions example_state))"
proof -
  have h1: "1 \<le> length (questions example_state)"
    by (simp add: example_state_def example_questions_def)
  have h2: "currentQuestionIndex example_state = 0"
    by (simp add: example_state_def)
  from navigation_index_in_range [OF h1 h2, of "[Next, Next, Select ''q2'' ''Queue'', Previous, Previous]"]
  show ?thesis using h1 h2 by simp
qed

subsection \<open>Quiz assembly\<close>

lemma isValidQuestion_iff:
  "isValidQuestion q \<longleftrightarrow> choices q \<noteq> [] \<and> (\<exists>c\<in>set (choices q). c_is_correct c)"
  by (simp add: isValidQuestion_def list_ex_iff)

lemma mset_take_subset: "mset (take n ys) \<subseteq># mset ys"
proof -
  have "mset ys = mset (take n ys) + mset (drop n ys)"
    by (simp flip: mset_append)
  then show ?thesis by simp
qed

lemma take_shuffled:
  assumes "mset shuffled = mset valid"
  shows "length (take 5 shuffled) = min 5 (length valid)"
    and "set (take 5 shuffled) \<subseteq> set valid"
    and "mset (take 5 shuffled) \<subseteq># mset valid"
    and "distinct valid \<Longrightarrow> distinct (take 5 shuffled)"
proof -
  show "length (take 5 shuffled) = min 5 (length valid)"
    using mset_eq_length [OF assms] by simp
  show "set (take 5 shuffled) \<subseteq> set valid"
    using mset_eq_setD [OF assms] set_take_subset [of 5 shuffled] by simp
  show "mset (take 5 shuffled) \<subseteq># mset valid"
    using mset_take_subset [of 5 shuffled] assms by simp
  show "distinct valid \<Longrightarrow> distinct (take 5 shuffled)"
    using mset_eq_imp_distinct_iff [OF assms] by simp
qed

lemma valid_nonempty_tables:
  assumes "validQuestions (questionsWithChoices questionsData choicesData) \<noteq> []"
  shows "questionsData \<noteq> []" and "choicesData \<noteq> []"
proof -
  from assms obtain q where q: "q \<in> set (questionsWithChoices questionsData choicesData)"
    and v: "isValidQuestion q"
    by (auto simp: validQuestions_def filter_empty_conv)
  from q show "questionsData \<noteq> []"
    by (auto simp: questionsWithChoices_def)
  from q v show "choicesData \<noteq> []"
    by (auto simp: questionsWithChoices_def isValidQuestion_def)
qed

lemma fetchQuestions_Some:
  assumes "validQuestions (questionsWithChoices questionsData choicesData) \<noteq> []"
  shows "fetchQuestions sort_random questionsData choicesData =
           Some (take 5 (sort_random (validQuestions (questionsWithChoices questionsData choicesData))))"
  using assms valid_nonempty_tables [OF assms]
  by (simp add: fetchQuestions_def Let_def)

lemma fetchQuestions_SomeD:
  assumes "fetchQuestions sort_random questionsData choicesData = Some selected"
  shows "validQuestions (questionsWithChoices questionsData choicesData) \<noteq> [] \<and>
         selected = take 5 (sort_random (validQuestions (questionsWithChoices questionsData choicesData)))"
  using assms by (auto simp: fetchQuestions_def Let_def split: if_splits)

lemma distinct_valid_ids:
  assumes "distinct (map row_id questionsData)"
  shows "distinct (map q_id (validQuestions (questionsWithChoices questionsData choicesData)))"
proof -
  have "map q_id (questionsWithChoices questionsData choicesData) = map row_id questionsData"
    by (simp add: questionsWithChoices_def comp_def)
  with assms have "distinct (map q_id (questionsWithChoices questionsData choicesData))"
    by simp
  then show ?thesis
    unfolding validQuestions_def by (rule distinct_map_filter)
qed

lemma example_valid:
  "validQuestions (questionsWithChoices example_rows example_choices) =
     map (\<lambda>i. \<lparr>q_id = i, content = ''What is a queue?'', explanation = ''First in, first out.'',
               difficulty = 1,
               choices = [example_choice (i @ ''a'') i ''FIFO'' True,
                          example_choice (i @ ''b'') i ''LIFO'' False]\<rparr>)
         [''q1'', ''q2'', ''q3'', ''q4'', ''q5'', ''q6'']"
  by (simp add: validQuestions_def questionsWithChoices_def example_rows_def example_row_def
      example_choices_def example_choice_def formattedChoice_def isValidQuestion_def)

text \<open>
  Claim C4. Whenever at least one question is eligible, \<open>fetchQuestions\<close> sets a selection
  of exactly min(5, number of eligible questions) questions. The selection is drawn without
  replacement: as a multiset it is contained in the eligible questions, so each selected
  question is eligible and none is selected more often than it occurs there; the selected
  questions are pairwise distinct when the eligible ones are, and have pairwise distinct
  identifiers when the fetched rows do. The engine's sort is only assumed to permute.
\<close>

theorem sample_is_min_5_without_replacement:
  assumes perm: "\<forall>xs. mset (sort_random xs) = mset xs"
    and nonempty: "validQuestions (questionsWithChoices questionsData choicesData) \<noteq> []"
  shows "\<exists>selected.
           fetchQuestions sort_random questionsData choicesData = Some selected \<and>
           length selected =
             min 5 (length (validQuestions (questionsWithChoices questionsData choicesData))) \<and>
           set selected \<subseteq> set (validQuestions (questionsWithChoices questionsData choicesData)) \<and>
           mset selected \<subseteq># mset (validQuestions (questionsWithChoices questionsData choicesData)) \<and>
           (distinct (validQuestions (questionsWithChoices questionsData choicesData))
              \<longrightarrow> distinct selected) \<and>
           (distinct (map row_id questionsData) \<longrightarrow> distinct (map q_id selected))"
proof -
  let ?valid = "validQuestions (questionsWithChoices questionsData choicesData)"
  let ?sel = "take 5 (sort_random ?valid)"
  have p: "mset (sort_random ?valid) = mset ?valid"
    using perm by simp
  have ids: "distinct (map q_id ?sel)" if d: "distinct (map row_id questionsData)"
  proof -
    have "mset (map q_id (sort_random ?valid)) = mset (map q_id ?valid)"
      using arg_cong [OF p, of "image_mset q_id"] by simp
    with distinct_valid_ids [OF d, of choicesData]
    have "distinct (map q_id (sort_random ?valid))"
      using mset_eq_imp_distinct_iff by blast
    then have "distinct (take 5 (map q_id (sort_random ?valid)))"
      by (rule distinct_take)
    then show ?thesis by (simp add: take_map)
  qed
  show ?thesis
    using fetchQuestions_Some [OF nonempty, of sort_random] take_shuffled [OF p] ids
    by simp
qed

theorem sample_is_min_5_without_replacement_witness:
  "mset (rev (validQuestions (questionsWithChoices example_rows example_choices))) =
     mset (validQuestions (questionsWithChoices example_rows example_choices)) \<and>
   length (validQuestions (questionsWithChoices example_rows example_choices)) = 6 \<and>
   (\<exists>selected. fetchQuestions rev example_rows example_choices = Some selected \<and>
      length selected = 5 \<and> distinct (map q_id selected))"
proof -
  have perm: "\<forall>xs :: question list. mset (rev xs) = mset xs"
    by simp
  have len: "length (validQuestions (questionsWithChoices example_rows example_choices)) = 6"
    by (simp add: example_valid)
  then have nonempty: "validQuestions (questionsWithChoices example_rows example_choices) \<noteq> []"
    by auto
  have ids: "distinct (map row_id example_rows)"
    by (simp add: example_rows_def example_row_def)
  from sample_is_min_5_without_replacement [OF perm nonempty] len ids
  show ?thesis by auto
qed

text \<open>
  Claim C2, as the code has it. The filter of \<open>fetchQuestions\<close> keeps a question when it
  has at least one choice and at least one choice marked correct; it does not ask for exactly
  one. With two choices marked correct a question is eligible and is selected:
\<close>

theorem exactly_one_correct_counterexample:
  "fetchQuestions id [example_row ''q1''] two_correct_choices =
     Some [\<lparr>q_id = ''q1'', content = ''What is a queue?'', explanation = ''First in, first out.'',
            difficulty = 1, choices = two_correct_choices\<rparr>] \<and>
   length (filter c_is_correct two_correct_choices) = 2"
  by (simp add: fetchQuestions_def validQuestions_def questionsWithChoices_def example_row_def
      two_correct_choices_def example_choice_def formattedChoice_def isValidQuestion_def)

text \<open>
  Claim C2, amended. Every selected question has at least one choice and at least one choice
  marked correct. The selection is taken from the shuffled list of valid questions, and a
  question built from the fetched rows is in that list exactly when it has a choice and a
  choice marked correct: all others are gone before the shuffle.
\<close>

theorem selected_questions_have_a_correct_choice:
  assumes perm: "\<forall>xs. mset (sort_random xs) = mset xs"
    and sel: "fetchQuestions sort_random questionsData choicesData = Some selected"
  shows "(\<forall>q\<in>set selected. 1 \<le> length (choices q) \<and> (\<exists>c\<in>set (choices q). c_is_correct c)) \<and>
         selected = take 5 (sort_random (validQuestions (questionsWithChoices questionsData choicesData))) \<and>
         (\<forall>q\<in>set (questionsWithChoices questionsData choicesData).
            q \<in> set (validQuestions (questionsWithChoices questionsData choicesData)) \<longleftrightarrow>
            1 \<le> length (choices q) \<and> (\<exists>c\<in>set (choices q). c_is_correct c))"
proof -
  let ?valid = "validQuestions (questionsWithChoices questionsData choicesData)"
  from fetchQuestions_SomeD [OF sel] have s: "selected = take 5 (sort_random ?valid)"
    by simp
  have p: "mset (sort_random ?valid) = mset ?valid"
    using perm by simp
  have "set selected \<subseteq> set ?valid"
    unfolding s by (rule take_shuffled(2) [OF p])
  then have "\<forall>q\<in>set selected. isValidQuestion q"
    by (auto simp: validQuestions_def)
  then have a: "\<forall>q\<in>set selected. 1 \<le> length (choices q) \<and> (\<exists>c\<in>set (choices q). c_is_correct c)"
    by (auto simp: isValidQuestion_iff Suc_le_eq)
  have b: "\<forall>q\<in>set (questionsWithChoices questionsData choicesData).
            q \<in> set ?valid \<longleftrightarrow>
            1 \<le> length (choices q) \<and> (\<exists>c\<in>set (choices q). c_is_correct c)"
    by (auto simp: validQuestions_def isValidQuestion_iff Suc_le_eq)
  from a s b show ?thesis by blast
qed

theorem selected_questions_have_a_correct_choice_witness:
  "fetchQuestions rev example_rows example_choices =
     Some (take 5 (rev (validQuestions (questionsWithChoices example_rows example_choices)))) \<and>
   list_all (\<lambda>q. 1 \<le> length (choices q) \<and> list_ex c_is_correct (choices q))
     (take 5 (rev (validQuestions (questionsWithChoices example_rows example_choices))))"
proof -
  have perm: "\<forall>xs :: question list. mset (rev xs) = mset xs"
    by simp
  have "validQuestions (questionsWithChoices example_rows example_choices) \<noteq> []"
    by (simp add: example_valid)
  then have sel: "fetchQuestions rev example_rows example_choices =
     Some (take 5 (rev (validQuestions (questionsWithChoices example_rows example_choices))))"
    by (rule fetchQuestions_Some)
  from selected_questions_have_a_correct_choice [OF perm sel] sel
  show ?thesis by (simp add: list_all_iff list_ex_iff)
qed

subsection \<open>Scoring\<close>

lemma score_as_filter:
  "length (filter r_is_correct (assessmentResults s)) =
     length (filter (answerIsCorrect (selectedAnswers s)) (questions s))"
  by (simp add: assessmentResults_def filter_map comp_def)

lemma valid_correctChoice:
  assumes "isValidQuestion q"
  obtains c where "correctChoice q = Some c"
proof (cases "correctChoice q")
  case None
  with assms show ?thesis
    by (auto simp: correctChoice_def isValidQuestion_def find_None_iff list_ex_iff)
next
  case (Some c)
  then show ?thesis by (rule that)
qed

lemma answerIsCorrect_valid:
  assumes "isValidQuestion q"
  shows "answerIsCorrect sel q \<longleftrightarrow> (\<exists>c. correctChoice q = Some c \<and> sel (q_id q) = Some (c_choice c))"
proof -
  from assms obtain c where "correctChoice q = Some c"
    by (rule valid_correctChoice)
  then show ?thesis by (auto simp: answerIsCorrect_def)
qed

lemma handleSubmit_result:
  assumes "questions s \<noteq> []" "getUser_ok r" "userData_ok r" "assessment_ok r" "results_ok r"
  shows "\<exists>tr. testResult (handleSubmit r s) = Some tr \<and> total tr = length (questions s) \<and>
           score tr = length (filter (answerIsCorrect (selectedAnswers s)) (questions s))"
  using assms by (simp add: handleSubmit_def Let_def score_as_filter)

text \<open>
  Claim C3. For an assembled question set (non-empty, every question with a choice marked
  correct) and any answer mapping, a submission whose remote calls succeed produces a result
  whose total is the number of questions and whose score is the number of questions for
  which the selected answer is the text of the question's correct choice (the first one
  marked correct). When that holds of every question the score is the number of questions,
  and for the empty answer mapping it is 0.
\<close>

theorem score_counts_exact_matches:
  assumes assembled: "\<forall>q\<in>set (questions s). isValidQuestion q"
    and nonempty: "questions s \<noteq> []"
    and ok: "getUser_ok r" "userData_ok r" "assessment_ok r" "results_ok r"
  shows "\<exists>tr. testResult (handleSubmit r s) = Some tr \<and> total tr = length (questions s) \<and>
           score tr = length (filter (\<lambda>q. \<exists>c. correctChoice q = Some c \<and>
                                             selectedAnswers s (q_id q) = Some (c_choice c))
                                     (questions s)) \<and>
           ((\<forall>q\<in>set (questions s). \<exists>c. correctChoice q = Some c \<and>
                                          selectedAnswers s (q_id q) = Some (c_choice c))
              \<longrightarrow> score tr = length (questions s)) \<and>
           (selectedAnswers s = Map.empty \<longrightarrow> score tr = 0)"
proof -
  let ?match = "\<lambda>q. \<exists>c. correctChoice q = Some c \<and> selectedAnswers s (q_id q) = Some (c_choice c)"
  from handleSubmit_result [OF nonempty ok] obtain tr where
    tr: "testResult (handleSubmit r s) = Some tr" "total tr = length (questions s)"
    "score tr = length (filter (answerIsCorrect (selectedAnswers s)) (questions s))"
    by blast
  have "filter (answerIsCorrect (selectedAnswers s)) (questions s) = filter ?match (questions s)"
    using assembled by (intro filter_cong refl) (simp add: answerIsCorrect_valid)
  with tr have count: "score tr = length (filter ?match (questions s))"
    by simp
  have full: "score tr = length (questions s)" if "\<forall>q\<in>set (questions s). ?match q"
  proof -
    from that have "filter ?match (questions s) = questions s"
      by (simp only: filter_id_conv)
    with count show ?thesis by simp
  qed
  have none: "score tr = 0" if "selectedAnswers s = Map.empty"
    using count that by simp
  from tr count full none show ?thesis by blast
qed

theorem score_counts_exact_matches_witness:
  "list_all isValidQuestion (questions example_answered) \<and>
   map_option score (testResult (handleSubmit all_ok example_answered)) = Some 1 \<and>
   map_option total (testResult (handleSubmit all_ok example_answered)) = Some 2 \<and>
   map_option score (testResult (handleSubmit all_ok example_all_correct)) = Some 2 \<and>
   map_option score (testResult (handleSubmit all_ok example_state)) = Some 0"
proof -
  have v: "\<forall>q\<in>set (questions example_answered). isValidQuestion q"
    by (simp add: example_answered_def example_questions_def example_question_def
        example_choice_def isValidQuestion_def)
  have n: "questions example_answered \<noteq> []"
    by (simp add: example_answered_def example_questions_def)
  have ok: "getUser_ok all_ok" "userData_ok all_ok" "assessment_ok all_ok" "results_ok all_ok"
    by (simp_all add: all_ok_def)
  have v0: "\<forall>q\<in>set (questions example_state). isValidQuestion q"
    using v by (simp add: example_answered_def example_state_def)
  have n0: "questions example_state \<noteq> []"
    by (simp add: example_state_def example_questions_def)
  have e0: "selectedAnswers example_state = Map.empty"
    by (simp add: example_state_def)
  have v2: "\<forall>q\<in>set (questions example_all_correct). isValidQuestion q"
    using v by (simp add: example_answered_def example_all_correct_def)
  have n2: "questions example_all_correct \<noteq> []"
    by (simp add: example_all_correct_def example_questions_def)
  have a2: "\<forall>q\<in>set (questions example_all_correct).
              \<exists>c. correctChoice q = Some c \<and>
                  selectedAnswers example_all_correct (q_id q) = Some (c_choice c)"
    by (simp add: example_all_correct_def example_questions_def example_question_def
        example_choice_def correctChoice_def)
  have l2: "length (questions example_all_correct) = 2"
    by (simp add: example_all_correct_def example_questions_def)
  have m: "length (filter (\<lambda>q. \<exists>c. correctChoice q = Some c \<and>
              selectedAnswers example_answered (q_id q) = Some (c_choice c))
            (questions example_answered)) = 1"
    by (simp add: example_answered_def example_questions_def example_question_def
        example_choice_def correctChoice_def)
  have l: "length (questions example_answered) = 2"
    by (simp add: example_answered_def example_questions_def)
  from score_counts_exact_matches [OF v n ok] obtain tr where
    tr: "testResult (handleSubmit all_ok example_answered) = Some tr"
      "total tr = length (questions example_answered)"
      "score tr = length (filter (\<lambda>q. \<exists>c. correctChoice q = Some c \<and>
              selectedAnswers example_answered (q_id q) = Some (c_choice c))
            (questions example_answered))"
    by blast
  from score_counts_exact_matches [OF v0 n0 ok] e0 obtain tr0 where
    tr0: "testResult (handleSubmit all_ok example_state) = Some tr0" "score tr0 = 0"
    by blast
  from score_counts_exact_matches [OF v2 n2 ok] a2 l2 obtain tr2 where
    tr2: "testResult (handleSubmit all_ok example_all_correct) = Some tr2" "score tr2 = 2"
    by auto
  have "list_all isValidQuestion (questions example_answered)"
    using v by (simp add: list_all_iff)
  with tr tr0 tr2 m l show ?thesis by simp
qed

section \<open>Properties of the question generation endpoints\<close>

subsection \<open>The match\<close>

lemma lazy_to_close_None: "lazy_to_close s = None \<longleftrightarrow> CHR ''}'' \<notin> set s"
  by (induction s) auto

lemma lazy_to_close_SomeD:
  "lazy_to_close s = Some m \<Longrightarrow>
     \<exists>inner after. s = inner @ CHR ''}'' # after \<and> m = inner @ ''}'' \<and> CHR ''}'' \<notin> set inner"
proof (induction s arbitrary: m)
  case Nil
  then show ?case by simp
next
  case (Cons c cs)
  show ?case
  proof (cases "c = CHR ''}''")
    case True
    with Cons.prems have "m = ''}''" by simp
    with True have "c # cs = [] @ CHR ''}'' # cs \<and> m = [] @ ''}'' \<and> CHR ''}'' \<notin> set []"
      by simp
    then show ?thesis by blast
  next
    case False
    with Cons.prems obtain m' where m': "lazy_to_close cs = Some m'" "m = c # m'"
      by auto
    from Cons.IH [OF m'(1)] obtain inner after
      where "cs = inner @ CHR ''}'' # after" "m' = inner @ ''}''" "CHR ''}'' \<notin> set inner"
      by blast
    with False m'(2)
    have "c # cs = (c # inner) @ CHR ''}'' # after \<and> m = (c # inner) @ ''}'' \<and>
          CHR ''}'' \<notin> set (c # inner)"
      by simp
    then show ?thesis by blast
  qed
qed

lemma regex_match_SomeD:
  "regex_match s = Some m \<Longrightarrow>
     \<exists>before inner after.
       s = before @ m @ after \<and> m = CHR ''{'' # inner @ ''}'' \<and> CHR ''}'' \<notin> set inner"
proof (induction s arbitrary: m)
  case Nil
  then show ?case by simp
next
  case (Cons c cs)
  show ?case
  proof (cases "c = CHR ''{'' \<and> lazy_to_close cs \<noteq> None")
    case True
    then obtain m' where m': "lazy_to_close cs = Some m'" by auto
    with True Cons.prems have m: "m = c # m'" by simp
    from lazy_to_close_SomeD [OF m'] obtain inner after
      where "cs = inner @ CHR ''}'' # after" "m' = inner @ ''}''" "CHR ''}'' \<notin> set inner"
      by blast
    with True m have "c # cs = [] @ m @ after \<and> m = CHR ''{'' # inner @ ''}'' \<and> CHR ''}'' \<notin> set inner"
      by simp
    then show ?thesis by blast
  next
    case False
    with Cons.prems have "regex_match cs = Some m"
      by (auto split: if_splits)
    from Cons.IH [OF this] obtain before inner after
      where "cs = before @ m @ after" "m = CHR ''{'' # inner @ ''}''" "CHR ''}'' \<notin> set inner"
      by blast
    then have "c # cs = (c # before) @ m @ after \<and> m = CHR ''{'' # inner @ ''}'' \<and>
               CHR ''}'' \<notin> set inner"
      by simp
    then show ?thesis by blast
  qed
qed

lemma regex_match_None:
  "regex_match s = None \<longleftrightarrow>
     \<not> (\<exists>before inner after. s = before @ CHR ''{'' # inner @ CHR ''}'' # after)"
proof (induction s)
  case Nil
  then show ?case by simp
next
  case (Cons c cs)
  have here: "(c = CHR ''{'' \<and> lazy_to_close cs \<noteq> None) \<longleftrightarrow>
        (\<exists>inner after. c # cs = CHR ''{'' # inner @ CHR ''}'' # after)"
    by (auto simp: lazy_to_close_None in_set_conv_decomp)
  have split: "(\<exists>before inner after. c # cs = before @ CHR ''{'' # inner @ CHR ''}'' # after) \<longleftrightarrow>
        (\<exists>inner after. c # cs = CHR ''{'' # inner @ CHR ''}'' # after) \<or>
        (\<exists>before inner after. cs = before @ CHR ''{'' # inner @ CHR ''}'' # after)"
    (is "?L \<longleftrightarrow> ?H \<or> ?T")
  proof
    assume ?L
    then obtain before inner after
      where eq: "c # cs = before @ CHR ''{'' # inner @ CHR ''}'' # after"
      by blast
    show "?H \<or> ?T"
    proof (cases before)
      case Nil
      with eq show ?thesis by auto
    next
      case (Cons b bs)
      with eq have "cs = bs @ CHR ''{'' # inner @ CHR ''}'' # after" by simp
      then show ?thesis by blast
    qed
  next
    assume "?H \<or> ?T"
    then show ?L
    proof
      assume ?H
      then obtain inner after where "c # cs = [] @ CHR ''{'' # inner @ CHR ''}'' # after"
        by auto
      then show ?L by blast
    next
      assume ?T
      then obtain before inner after where "cs = before @ CHR ''{'' # inner @ CHR ''}'' # after"
        by blast
      then have "c # cs = (c # before) @ CHR ''{'' # inner @ CHR ''}'' # after"
        by simp
      then show ?L by blast
    qed
  qed
  have "regex_match (c # cs) = None \<longleftrightarrow>
          \<not> (c = CHR ''{'' \<and> lazy_to_close cs \<noteq> None) \<and> regex_match cs = None"
    by (auto split: option.splits)
  with here split Cons.IH show ?case by simp
qed

subsection \<open>Lower case\<close>

lemma lower_char_not_upper: "lower_char c \<notin> set ''ABCDEFGHIJKLMNOPQRSTUVWXYZ''"
  by (simp add: lower_char_def)

lemma toLowerCase_no_upper:
  "c \<in> set (toLowerCase s) \<Longrightarrow> c \<notin> set ''ABCDEFGHIJKLMNOPQRSTUVWXYZ''"
  unfolding toLowerCase_def using lower_char_not_upper by (auto simp del: set_simps) 

lemma toLowerCase_inherited_function:
  assumes "toLowerCase s \<in> set Object_prototype_functions"
  shows "toLowerCase s = ''constructor''"
proof -
  have no: "\<And>c. c \<in> set (toLowerCase s) \<Longrightarrow> c \<notin> set ''ABCDEFGHIJKLMNOPQRSTUVWXYZ''"
    by (rule toLowerCase_no_upper)
  have G: "toLowerCase s \<noteq> ''__defineGetter__''" using no [of "CHR ''G''"] by auto
  have S: "toLowerCase s \<noteq> ''__defineSetter__''" using no [of "CHR ''S''"] by auto
  have O: "toLowerCase s \<noteq> ''hasOwnProperty''" using no [of "CHR ''O''"] by auto
  have LG: "toLowerCase s \<noteq> ''__lookupGetter__''" using no [of "CHR ''G''"] by auto
  have LS: "toLowerCase s \<noteq> ''__lookupSetter__''" using no [of "CHR ''S''"] by auto
  have P: "toLowerCase s \<noteq> ''isPrototypeOf''" using no [of "CHR ''P''"] by auto
  have I: "toLowerCase s \<noteq> ''propertyIsEnumerable''" using no [of "CHR ''I''"] by auto
  have T: "toLowerCase s \<noteq> ''toString''" using no [of "CHR ''S''"] by auto
  have V: "toLowerCase s \<noteq> ''valueOf''" using no [of "CHR ''O''"] by auto
  have L: "toLowerCase s \<noteq> ''toLocaleString''" using no [of "CHR ''L''"] by auto
  from assms G S O LG LS P I T V L show ?thesis
    by (simp add: Object_prototype_functions_def)
qed

subsection \<open>HTML error pages\<close>

lemma options_response_parses: "reference_JSON_parse options_response = Some options_data"
  by (simp add: options_response_def options_data_def reference_JSON_parse_def skip_ws_def
      is_ws_def unescape_def add_member_def)

text \<open>
  Claim C5, as the code has it. The two markers are looked for as they are written, in that
  case only. A response that opens with the tag \<open><HTML>\<close>, or with the doctype
  \<open><!doctype html>\<close>, and goes on with a JSON object is not taken for an error page: the
  object is matched and parsed, and \<open>handler\<close> answers with a success.
\<close>

theorem html_marker_case_counterexample:
  "\<not> str_includes uppercase_html_response ''<!DOCTYPE'' \<and>
   \<not> str_includes uppercase_html_response ''<html'' \<and>
   regex_match uppercase_html_response = Some options_response \<and>
   handler_on_response reference_JSON_parse uppercase_html_response =
     handler_on_data options_data \<and>
   status (handler_on_response reference_JSON_parse uppercase_html_response) = 200 \<and>
   \<not> str_includes lowercase_doctype_response ''<!DOCTYPE'' \<and>
   \<not> str_includes lowercase_doctype_response ''<html'' \<and>
   regex_match lowercase_doctype_response = Some options_response \<and>
   status (handler_on_response reference_JSON_parse lowercase_doctype_response) = 200 \<and>
   POST_on_response reference_JSON_parse v8_message uppercase_html_response =
     error_response 500 ''Invalid question structure. Must have exactly one correct choice.''"
proof -
  have u: "\<not> str_includes uppercase_html_response ''<!DOCTYPE''"
    "\<not> str_includes uppercase_html_response ''<html''"
    by (simp_all add: uppercase_html_response_def options_response_def str_includes_def
        sublist_Cons_right)
  have l: "\<not> str_includes lowercase_doctype_response ''<!DOCTYPE''"
    "\<not> str_includes lowercase_doctype_response ''<html''"
    by (simp_all add: lowercase_doctype_response_def options_response_def str_includes_def
        sublist_Cons_right)
  have mu: "regex_match uppercase_html_response = Some options_response"
    by (simp add: uppercase_html_response_def options_response_def)
  have ml: "regex_match lowercase_doctype_response = Some options_response"
    by (simp add: lowercase_doctype_response_def options_response_def)
  have s: "status (handler_on_data options_data) = 200"
    by (simp add: handler_on_data_def handler_invalid_def handler_mappedData_def
        mapped_difficulty_def get_def options_data_def)
  have p: "POST_on_data v8_message options_data =
     error_response 500 ''Invalid question structure. Must have exactly one correct choice.''"
    by (simp add: POST_on_data_def POST_invalid_def get_def options_data_def)
  from u l mu ml s p options_response_parses show ?thesis
    by (simp add: handler_on_response_def POST_on_response_def)
qed

text \<open>
  Claim C5, amended. When the accumulated response contains the text \<open><!DOCTYPE\<close> or the
  text \<open><html\<close>, in exactly this case, both endpoints answer with status 500 and the
  error-page message. The answer is the same for every \<open>JSON_parse\<close> and whatever else the
  response contains: neither the match nor the parser has a say.
\<close>

theorem html_marker_is_error_page:
  assumes "str_includes fullResponse ''<!DOCTYPE'' \<or> str_includes fullResponse ''<html''"
  shows "handler_on_response JSON_parse fullResponse =
           error_response 500
             ''API returned an error page. Please check your API key and configuration.'' \<and>
         POST_on_response JSON_parse message fullResponse =
           error_response 500
             ''API returned an error page. Please check your API key and configuration.''"
  using assms by (simp add: handler_on_response_def POST_on_response_def)

theorem html_marker_is_error_page_witness:
  "str_includes html_and_json_response ''<html'' \<and>
   regex_match html_and_json_response = Some options_response \<and>
   reference_JSON_parse options_response = Some options_data \<and>
   status (handler_on_data options_data) = 200 \<and>
   handler_on_response reference_JSON_parse html_and_json_response =
     error_response 500 ''API returned an error page. Please check your API key and configuration.'' \<and>
   POST_on_response reference_JSON_parse v8_message html_and_json_response =
     error_response 500 ''API returned an error page. Please check your API key and configuration.''"
proof -
  have h: "str_includes html_and_json_response ''<html''"
    by (simp add: html_and_json_response_def str_includes_def)
  have m: "regex_match html_and_json_response = Some options_response"
    by (simp add: html_and_json_response_def options_response_def)
  have s: "status (handler_on_data options_data) = 200"
    by (simp add: handler_on_data_def handler_invalid_def handler_mappedData_def
        mapped_difficulty_def get_def options_data_def)
  from html_marker_is_error_page [of html_and_json_response reference_JSON_parse v8_message]
    h m s options_response_parses
  show ?thesis by simp
qed

subsection \<open>No JSON in the response\<close>

text \<open>
  Claim C6, amended. When the accumulated response contains neither \<open><!DOCTYPE\<close> nor
  \<open><html\<close> and has no opening brace that is followed somewhere by a closing brace, both
  endpoints answer with status 500 and their invalid-format message. The handlers are total
  functions into responses: nothing that is thrown on the way escapes.
\<close>

theorem no_html_no_braces_is_format_error:
  assumes "\<not> str_includes fullResponse ''<!DOCTYPE''" and "\<not> str_includes fullResponse ''<html''"
    and "\<not> (\<exists>before inner after. fullResponse = before @ CHR ''{'' # inner @ CHR ''}'' # after)"
  shows "handler_on_response JSON_parse fullResponse =
           error_response 500 ''Invalid response format from the API'' \<and>
         POST_on_response JSON_parse message fullResponse =
           error_response 500 ''Invalid response format from the API. Please try again.''"
proof -
  from assms(3) have "regex_match fullResponse = None"
    by (simp add: regex_match_None)
  with assms(1,2) show ?thesis
    by (simp add: handler_on_response_def POST_on_response_def)
qed

text \<open>
  Claim C6, as the code has it. The check for an HTML page comes first: a response without
  braces that contains \<open><html\<close> is answered with the error-page message, not with the
  invalid-format message.
\<close>

theorem html_without_braces_counterexample:
  "regex_match ''<html>Bad gateway</html>'' = None \<and>
   handler_on_response reference_JSON_parse ''<html>Bad gateway</html>'' =
     error_response 500 ''API returned an error page. Please check your API key and configuration.'' \<and>
   POST_on_response reference_JSON_parse v8_message ''<html>Bad gateway</html>'' =
     error_response 500 ''API returned an error page. Please check your API key and configuration.'' \<and>
   error_response 500 ''API returned an error page. Please check your API key and configuration.''
     \<noteq> (error_response 500 ''Invalid response format from the API'' :: rat response) \<and>
   error_response 500 ''API returned an error page. Please check your API key and configuration.''
     \<noteq> (error_response 500 ''Invalid response format from the API. Please try again.'' :: rat response)"
  by (simp add: handler_on_response_def POST_on_response_def str_includes_def error_response_def)

theorem no_html_no_braces_is_format_error_witness:
  "\<not> str_includes ''Sorry, I cannot help with that.'' ''<!DOCTYPE'' \<and>
   \<not> str_includes ''Sorry, I cannot help with that.'' ''<html'' \<and>
   regex_match ''Sorry, I cannot help with that.'' = None \<and>
   handler_on_response reference_JSON_parse ''Sorry, I cannot help with that.'' =
     error_response 500 ''Invalid response format from the API'' \<and>
   POST_on_response reference_JSON_parse v8_message ''Sorry, I cannot help with that.'' =
     error_response 500 ''Invalid response format from the API. Please try again.''"
proof -
  have a: "\<not> str_includes ''Sorry, I cannot help with that.'' ''<!DOCTYPE''"
    and b: "\<not> str_includes ''Sorry, I cannot help with that.'' ''<html''"
    by (simp_all add: str_includes_def sublist_Cons_right)
  have c: "regex_match ''Sorry, I cannot help with that.'' = None"
    by simp
  then have d: "\<not> (\<exists>before inner after.
        ''Sorry, I cannot help with that.'' = before @ CHR ''{'' # inner @ CHR ''}'' # after)"
    unfolding regex_match_None .
  from no_html_no_braces_is_format_error [OF a b d, of reference_JSON_parse v8_message] a b c
  show ?thesis by simp
qed

subsection \<open>Truncation at the first closing brace\<close>

text \<open>
  Claim C8. The response \<open>choices_response\<close> is one JSON object, of the shape the prompt of
  \<open>POST\<close> asks for, with the choices as inner objects. The match ends at the first closing
  brace, so the matched text is a proper prefix of the response. With a \<open>JSON.parse\<close> that
  rejects this prefix, \<open>POST\<close> answers with its invalid-format error; \<open>handler\<close>, which
  has no \<open>try\<close> of its own around the parse, answers with the error of its \<open>catch\<close> block.
\<close>

theorem nested_object_is_truncated:
  assumes "JSON_parse choices_truncated = None"
  shows "regex_match choices_response = Some choices_truncated \<and>
         strict_prefix choices_truncated choices_response \<and>
         POST_on_response JSON_parse message choices_response =
           error_response 500 ''Invalid response format from the API. Please try again.'' \<and>
         handler_on_response JSON_parse choices_response =
           error_response 500
             ''Failed to generate question. Please check your API key and configuration.''"
proof -
  have m: "regex_match choices_response = Some choices_truncated"
    by (simp add: choices_response_def choices_truncated_def)
  have p: "strict_prefix choices_truncated choices_response"
    by (simp add: choices_response_def choices_truncated_def strict_prefix_def)
  have h: "\<not> str_includes choices_response ''<!DOCTYPE''" "\<not> str_includes choices_response ''<html''"
    by (simp_all add: choices_response_def str_includes_def sublist_Cons_right)
  from m p h assms show ?thesis
    by (simp add: handler_on_response_def POST_on_response_def handler_catch_def)
qed

theorem nested_object_is_truncated_witness:
  "reference_JSON_parse choices_truncated = None \<and>
   reference_JSON_parse choices_response = Some choices_data \<and>
   status (POST_on_data v8_message choices_data) = 200 \<and>
   regex_match choices_response = Some choices_truncated \<and>
   POST_on_response reference_JSON_parse v8_message choices_response =
     error_response 500 ''Invalid response format from the API. Please try again.''"
proof -
  have t: "reference_JSON_parse choices_truncated = None"
    by (simp add: choices_truncated_def reference_JSON_parse_def skip_ws_def is_ws_def
        unescape_def add_member_def)
  have f: "reference_JSON_parse choices_response = Some choices_data"
    by (simp add: choices_response_def choices_data_def reference_JSON_parse_def skip_ws_def
        is_ws_def unescape_def add_member_def)
  have s: "status (POST_on_data v8_message choices_data) = 200"
    by (simp add: POST_on_data_def POST_invalid_def POST_mappedData_def mapped_difficulty_def
        get_def choices_data_def)
  from nested_object_is_truncated [of reference_JSON_parse v8_message] t f s
  show ?thesis by simp
qed

subsection \<open>The difficulty label\<close>

lemma mapped_difficulty_label:
  assumes "get data ''difficulty'' = Some (JStr label)"
    and "toLowerCase label \<noteq> ''constructor''" and "toLowerCase label \<noteq> ''__proto__''"
  shows "mapped_difficulty data =
           Inr (Json (JStr (if toLowerCase label = ''easy'' then ''1''
                            else if toLowerCase label = ''medium'' then ''2''
                            else if toLowerCase label = ''hard'' then ''3''
                            else ''1'')))"
proof -
  have "toLowerCase label \<notin> set Object_prototype_functions"
    using toLowerCase_inherited_function [of label] assms(2) by blast
  with assms show ?thesis
    by (simp add: mapped_difficulty_def difficultyMap_def)
qed

lemma mapped_difficulty_Inr:
  "(\<exists>d. mapped_difficulty data = Inr d) \<longleftrightarrow> (\<exists>label. get data ''difficulty'' = Some (JStr label))"
proof (cases "get data ''difficulty''")
  case None
  then show ?thesis by (simp add: mapped_difficulty_def)
next
  case (Some v)
  then show ?thesis by (cases v) (simp_all add: mapped_difficulty_def)
qed

lemma mapped_difficulty_throws:
  assumes "\<forall>label. get data ''difficulty'' \<noteq> Some (JStr label)"
  shows "mapped_difficulty data = Inl (TypeError_read_undefined ''toLowerCase'') \<or>
         mapped_difficulty data = Inl (TypeError_read_null ''toLowerCase'') \<or>
         mapped_difficulty data = Inl (TypeError_not_a_function ''toLowerCase'')"
proof (cases "get data ''difficulty''")
  case None
  then show ?thesis by (simp add: mapped_difficulty_def)
next
  case (Some v)
  with assms show ?thesis by (cases v) (simp_all add: mapped_difficulty_def)
qed

lemma get_update_other: "k \<noteq> k' \<Longrightarrow> get (AList.update k v data) k' = get data k'"
  by (simp add: get_def update_conv')

subsection \<open>Validation of the shape\<close>

lemma handler_valid_iff:
  "\<not> handler_invalid data \<longleftrightarrow>
     truthy (get data ''question'') \<and>
     (\<exists>options. get data ''options'' = Some (JArr options) \<and> 2 \<le> length options \<and>
                truthy (get data ''answer'') \<and> array_includes options (get data ''answer''))"
  by (auto simp: handler_invalid_def split: option.splits json.splits)

lemma is_correct_throws: "(\<exists>e. is_correct c = Inl e) \<longleftrightarrow> c = JNull"
  by (cases c) simp_all

lemma js_some_no_null:
  "JNull \<notin> set cs \<Longrightarrow> js_some is_correct cs = Inr (\<exists>c\<in>set cs. is_correct c = Inr True)"
proof (induction cs)
  case Nil
  then show ?case by simp
next
  case (Cons c cs)
  then have "c \<noteq> JNull" by auto
  then obtain b where "is_correct c = Inr b"
    using is_correct_throws [of c] by (cases "is_correct c") auto
  with Cons show ?case by auto
qed

lemma js_filter_no_null:
  "JNull \<notin> set cs \<Longrightarrow> js_filter is_correct cs = Inr (filter (\<lambda>c. is_correct c = Inr True) cs)"
proof (induction cs)
  case Nil
  then show ?case by simp
next
  case (Cons c cs)
  then have "c \<noteq> JNull" by auto
  then obtain b where "is_correct c = Inr b"
    using is_correct_throws [of c] by (cases "is_correct c") auto
  with Cons show ?case by auto
qed

lemma js_filter_null: "JNull \<in> set cs \<Longrightarrow> \<exists>e. js_filter is_correct cs = Inl e"
  by (induction cs) (auto split: sum.splits)

lemma js_some_null: "JNull \<in> set cs \<Longrightarrow> js_some is_correct cs \<noteq> Inr False"
  by (induction cs) (auto split: sum.splits)

lemma POST_invalid_no_question:
  "\<not> truthy (get data ''question'') \<Longrightarrow> POST_invalid data = Inr True"
  by (simp add: POST_invalid_def)

lemma POST_invalid_no_array:
  assumes "truthy (get data ''question'')" and "\<forall>cs. get data ''choices'' \<noteq> Some (JArr cs)"
  shows "POST_invalid data = Inr True"
proof (cases "get data ''choices''")
  case None
  with assms show ?thesis by (simp add: POST_invalid_def)
next
  case (Some v)
  with assms show ?thesis by (cases v) (simp_all add: POST_invalid_def)
qed

lemma POST_invalid_short:
  assumes "truthy (get data ''question'')" and "get data ''choices'' = Some (JArr cs)"
    and "length cs < 2"
  shows "POST_invalid data = Inr True"
  using assms by (simp add: POST_invalid_def)

lemma POST_invalid_no_null:
  assumes "truthy (get data ''question'')" and "get data ''choices'' = Some (JArr cs)"
    and "2 \<le> length cs" and "JNull \<notin> set cs"
  shows "POST_invalid data = Inr (length (filter (\<lambda>c. is_correct c = Inr True) cs) \<noteq> 1)"
proof -
  have some: "js_some is_correct cs = Inr (\<exists>c\<in>set cs. is_correct c = Inr True)"
    using assms(4) by (rule js_some_no_null)
  have filt: "js_filter is_correct cs = Inr (filter (\<lambda>c. is_correct c = Inr True) cs)"
    using assms(4) by (rule js_filter_no_null)
  have none: "filter (\<lambda>c. is_correct c = Inr True) cs = []"
    if "\<not> (\<exists>c\<in>set cs. is_correct c = Inr True)"
    using that by (simp add: filter_empty_conv)
  show ?thesis
  proof (cases "\<exists>c\<in>set cs. is_correct c = Inr True")
    case True
    with assms(1-3) some filt show ?thesis
      by (simp add: POST_invalid_def)
  next
    case False
    with assms(1-3) some none [OF False] show ?thesis
      by (simp add: POST_invalid_def)
  qed
qed

lemma POST_invalid_null:
  assumes "truthy (get data ''question'')" and "get data ''choices'' = Some (JArr cs)"
    and "2 \<le> length cs" and "JNull \<in> set cs"
  shows "\<exists>e. POST_invalid data = Inl e"
proof -
  from js_filter_null [OF assms(4)] obtain e where f: "js_filter is_correct cs = Inl e"
    by blast
  show ?thesis
  proof (cases "js_some is_correct cs")
    case (Inl e')
    with assms(1-3) show ?thesis by (simp add: POST_invalid_def)
  next
    case (Inr found)
    with js_some_null [OF assms(4)] have "found" by auto
    with Inr f assms(1-3) show ?thesis by (simp add: POST_invalid_def)
  qed
qed

lemma POST_valid_iff:
  "POST_invalid data = Inr False \<longleftrightarrow>
     truthy (get data ''question'') \<and>
     (\<exists>cs. get data ''choices'' = Some (JArr cs) \<and> 2 \<le> length cs \<and> JNull \<notin> set cs \<and>
           length (filter (\<lambda>c. is_correct c = Inr True) cs) = 1)"
  (is "?L \<longleftrightarrow> ?R")
proof
  assume R: ?R
  then obtain cs where "truthy (get data ''question'')" "get data ''choices'' = Some (JArr cs)"
    "2 \<le> length cs" "JNull \<notin> set cs" "length (filter (\<lambda>c. is_correct c = Inr True) cs) = 1"
    by blast
  then show ?L using POST_invalid_no_null [of data cs] by simp
next
  assume L: ?L
  have q: "truthy (get data ''question'')"
    using L POST_invalid_no_question [of data] by auto
  have "\<exists>cs. get data ''choices'' = Some (JArr cs)"
    using L POST_invalid_no_array [OF q] by auto
  then obtain cs where cs: "get data ''choices'' = Some (JArr cs)" by blast
  have len: "2 \<le> length cs"
    using L POST_invalid_short [OF q cs] by (cases "length cs < 2") auto
  have nn: "JNull \<notin> set cs"
    using L POST_invalid_null [OF q cs len] by auto
  have "length (filter (\<lambda>c. is_correct c = Inr True) cs) = 1"
    using L POST_invalid_no_null [OF q cs len nn] by simp
  with q cs len nn show ?R by blast
qed

lemma POST_invalid_True:
  assumes "\<not> truthy (get data ''question'') \<or>
           (\<forall>cs. get data ''choices'' \<noteq> Some (JArr cs)) \<or>
           (\<exists>cs. get data ''choices'' = Some (JArr cs) \<and>
                 (length cs < 2 \<or>
                  JNull \<notin> set cs \<and> length (filter (\<lambda>c. is_correct c = Inr True) cs) \<noteq> 1))"
  shows "POST_invalid data = Inr True"
proof (cases "truthy (get data ''question'')")
  case False
  then show ?thesis by (rule POST_invalid_no_question)
next
  case q: True
  show ?thesis
  proof (cases "\<exists>cs. get data ''choices'' = Some (JArr cs)")
    case False
    then show ?thesis using POST_invalid_no_array [OF q] by blast
  next
    case True
    then obtain cs where cs: "get data ''choices'' = Some (JArr cs)" by blast
    with assms q have c: "length cs < 2 \<or>
        JNull \<notin> set cs \<and> length (filter (\<lambda>c. is_correct c = Inr True) cs) \<noteq> 1"
      by auto
    show ?thesis
    proof (cases "length cs < 2")
      case True
      then show ?thesis by (rule POST_invalid_short [OF q cs])
    next
      case False
      with c have n: "JNull \<notin> set cs"
        and m: "length (filter (\<lambda>c. is_correct c = Inr True) cs) \<noteq> 1"
        by auto
      from False have "2 \<le> length cs" by simp
      from POST_invalid_no_null [OF q cs this n] m show ?thesis by simp
    qed
  qed
qed

lemma handler_success_iff:
  "status (handler_on_data data) = 200 \<longleftrightarrow>
     \<not> handler_invalid data \<and> (\<exists>label. get data ''difficulty'' = Some (JStr label))"
proof (cases "handler_invalid data")
  case True
  then show ?thesis by (simp add: handler_on_data_def error_response_def)
next
  case False
  show ?thesis
  proof (cases "mapped_difficulty data")
    case (Inl e)
    with mapped_difficulty_Inr [of data] have "\<not> (\<exists>label. get data ''difficulty'' = Some (JStr label))"
      by simp
    with False Inl show ?thesis
      by (simp add: handler_on_data_def handler_mappedData_def handler_catch_def error_response_def)
  next
    case (Inr d)
    with mapped_difficulty_Inr [of data] have "\<exists>label. get data ''difficulty'' = Some (JStr label)"
      by auto
    with False Inr show ?thesis
      by (simp add: handler_on_data_def handler_mappedData_def)
  qed
qed

lemma POST_catch_status: "status (POST_catch message e) = 500"
  by (simp add: POST_catch_def error_response_def)

lemma POST_success_iff:
  "status (POST_on_data message data) = 200 \<longleftrightarrow>
     POST_invalid data = Inr False \<and> (\<exists>label. get data ''difficulty'' = Some (JStr label))"
proof (cases "POST_invalid data")
  case (Inl e)
  then show ?thesis by (simp add: POST_on_data_def POST_catch_status)
next
  case (Inr invalid)
  show ?thesis
  proof (cases invalid)
    case True
    with Inr show ?thesis by (simp add: POST_on_data_def error_response_def)
  next
    case False
    show ?thesis
    proof (cases "mapped_difficulty data")
      case (Inl e)
      with mapped_difficulty_Inr [of data]
      have "\<not> (\<exists>label. get data ''difficulty'' = Some (JStr label))"
        by simp
      with False Inr Inl show ?thesis
        by (simp add: POST_on_data_def POST_mappedData_def POST_catch_status)
    next
      case d: (Inr d)
      with mapped_difficulty_Inr [of data] have "\<exists>label. get data ''difficulty'' = Some (JStr label)"
        by auto
      with False Inr d show ?thesis
        by (simp add: POST_on_data_def POST_mappedData_def)
    qed
  qed
qed

subsection \<open>Success and the shape check\<close>

text \<open>
  Claim C7, as the code has it. The shape check does not look at the difficulty, and it tests
  the question and the answer for truthiness, not for being strings. An object with a
  question string, two options and an answer among them, but no difficulty, is answered with
  the error of the \<open>catch\<close> block; an object whose question is the number 7 is a success.
\<close>

theorem success_iff_shape_counterexample:
  "get options_data_without_difficulty ''question'' = Some (JStr ''What is a queue?'') \<and>
   get options_data_without_difficulty ''options'' = Some (JArr [JStr ''FIFO'', JStr ''LIFO'']) \<and>
   get options_data_without_difficulty ''answer'' = Some (JStr ''FIFO'') \<and>
   handler_on_data options_data_without_difficulty =
     error_response 500
       ''Failed to generate question. Please check your API key and configuration.'' \<and>
   get numeric_question_data ''question'' = Some (JNum 7) \<and>
   status (handler_on_data numeric_question_data) = 200"
  by (simp add: handler_on_data_def handler_invalid_def handler_mappedData_def
      mapped_difficulty_def difficultyMap_def get_def
      options_data_without_difficulty_def numeric_question_data_def
      handler_catch_def toLowerCase_def lower_char_def)

text \<open>
  Claim C7, amended. A parsed object is answered with a success exactly when its question is
  truthy (any non-empty string is), its difficulty is a string, and, for \<open>handler\<close>, its
  options are an array of at least two values and its answer is truthy and is the same
  primitive value as one of the options, or, for \<open>POST\<close>, its choices are an array of at
  least two values none of which is \<open>null\<close> and exactly one of which has a truthy
  \<open>is_correct\<close>. An object that fails the shape check (for \<open>POST\<close>: with too few
  choices, or with no \<open>null\<close> among them) is answered with the validation error.
\<close>

theorem success_iff_shape_passes_and_difficulty_is_a_string:
  "(status (handler_on_data data) = 200 \<longleftrightarrow>
      truthy (get data ''question'') \<and>
      (\<exists>options. get data ''options'' = Some (JArr options) \<and> 2 \<le> length options \<and>
                 truthy (get data ''answer'') \<and> array_includes options (get data ''answer'')) \<and>
      (\<exists>label. get data ''difficulty'' = Some (JStr label))) \<and>
   (\<not> (truthy (get data ''question'') \<and>
       (\<exists>options. get data ''options'' = Some (JArr options) \<and> 2 \<le> length options \<and>
                  truthy (get data ''answer'') \<and> array_includes options (get data ''answer'')))
    \<longrightarrow> handler_on_data data =
          error_response 500 ''Invalid question structure or answer mismatch'') \<and>
   (status (POST_on_data message data) = 200 \<longleftrightarrow>
      truthy (get data ''question'') \<and>
      (\<exists>cs. get data ''choices'' = Some (JArr cs) \<and> 2 \<le> length cs \<and> JNull \<notin> set cs \<and>
            length (filter (\<lambda>c. is_correct c = Inr True) cs) = 1) \<and>
      (\<exists>label. get data ''difficulty'' = Some (JStr label))) \<and>
   (\<not> truthy (get data ''question'') \<or>
    (\<forall>cs. get data ''choices'' \<noteq> Some (JArr cs)) \<or>
    (\<exists>cs. get data ''choices'' = Some (JArr cs) \<and>
          (length cs < 2 \<or>
           JNull \<notin> set cs \<and> length (filter (\<lambda>c. is_correct c = Inr True) cs) \<noteq> 1))
    \<longrightarrow> POST_on_data message data =
          error_response 500 ''Invalid question structure. Must have exactly one correct choice.'')"
proof -
  have a: "status (handler_on_data data) = 200 \<longleftrightarrow>
      truthy (get data ''question'') \<and>
      (\<exists>options. get data ''options'' = Some (JArr options) \<and> 2 \<le> length options \<and>
                 truthy (get data ''answer'') \<and> array_includes options (get data ''answer'')) \<and>
      (\<exists>label. get data ''difficulty'' = Some (JStr label))"
    unfolding handler_success_iff handler_valid_iff by blast
  have b: "handler_on_data data = error_response 500 ''Invalid question structure or answer mismatch''"
    if "\<not> (truthy (get data ''question'') \<and>
       (\<exists>options. get data ''options'' = Some (JArr options) \<and> 2 \<le> length options \<and>
                  truthy (get data ''answer'') \<and> array_includes options (get data ''answer'')))"
  proof -
    from that have "handler_invalid data"
      using handler_valid_iff [of data] by blast
    then show ?thesis by (simp add: handler_on_data_def)
  qed
  have c: "status (POST_on_data message data) = 200 \<longleftrightarrow>
      truthy (get data ''question'') \<and>
      (\<exists>cs. get data ''choices'' = Some (JArr cs) \<and> 2 \<le> length cs \<and> JNull \<notin> set cs \<and>
            length (filter (\<lambda>c. is_correct c = Inr True) cs) = 1) \<and>
      (\<exists>label. get data ''difficulty'' = Some (JStr label))"
    unfolding POST_success_iff POST_valid_iff by blast
  have d: "POST_on_data message data =
          error_response 500 ''Invalid question structure. Must have exactly one correct choice.''"
    if "\<not> truthy (get data ''question'') \<or>
        (\<forall>cs. get data ''choices'' \<noteq> Some (JArr cs)) \<or>
        (\<exists>cs. get data ''choices'' = Some (JArr cs) \<and>
          (length cs < 2 \<or>
           JNull \<notin> set cs \<and> length (filter (\<lambda>c. is_correct c = Inr True) cs) \<noteq> 1))"
  proof -
    from that have "POST_invalid data = Inr True"
      by (rule POST_invalid_True)
    then show ?thesis by (simp add: POST_on_data_def)
  qed
  from a b c d show ?thesis by blast
qed

theorem success_iff_shape_passes_and_difficulty_is_a_string_witness:
  "status (handler_on_data options_data) = 200 \<and>
   status (POST_on_data v8_message choices_data) = 200 \<and>
   handler_on_data choices_data =
     error_response 500 ''Invalid question structure or answer mismatch'' \<and>
   POST_on_data v8_message options_data =
     error_response 500 ''Invalid question structure. Must have exactly one correct choice.''"
proof -
  have o: "truthy (get options_data ''question'') \<and>
      (\<exists>options. get options_data ''options'' = Some (JArr options) \<and> 2 \<le> length options \<and>
                 truthy (get options_data ''answer'') \<and>
                 array_includes options (get options_data ''answer'')) \<and>
      (\<exists>label. get options_data ''difficulty'' = Some (JStr label))"
    by (simp add: get_def options_data_def)
  have c: "truthy (get choices_data ''question'') \<and>
      (\<exists>cs. get choices_data ''choices'' = Some (JArr cs) \<and> 2 \<le> length cs \<and> JNull \<notin> set cs \<and>
            length (filter (\<lambda>c. is_correct c = Inr True) cs) = 1) \<and>
      (\<exists>label. get choices_data ''difficulty'' = Some (JStr label))"
    by (simp add: get_def choices_data_def)
  have no: "\<forall>options. get choices_data ''options'' \<noteq> Some (JArr options)"
    by (simp add: get_def choices_data_def)
  have nc: "\<forall>cs. get options_data ''choices'' \<noteq> Some (JArr cs)"
    by (simp add: get_def options_data_def)
  from success_iff_shape_passes_and_difficulty_is_a_string [of options_data v8_message]
    success_iff_shape_passes_and_difficulty_is_a_string [of choices_data v8_message]
    o c no nc
  show ?thesis by blast
qed

subsection \<open>The difficulty code of a success\<close>

lemma toLowerCase_Medium: "toLowerCase ''Medium'' = ''medium''"
  by (simp add: toLowerCase_def lower_char_def)

lemma options_data_valid: "\<not> handler_invalid options_data"
  by (simp add: handler_invalid_def get_def options_data_def)

lemma choices_data_valid: "POST_invalid choices_data = Inr False"
  by (simp add: POST_invalid_def get_def choices_data_def)

text \<open>
  Claim C1, as the code has it. The difficulty of a success is a string, here
  \<open>"2"\<close>, not a number. A response that passes the shape check but has no difficulty is
  answered with an error. The label "Constructor" is not mapped to a code: the lookup in
  \<open>difficultyMap\<close> finds the inherited property \<open>constructor\<close>.
\<close>

theorem difficulty_is_integer_counterexample:
  "\<not> handler_invalid options_data \<and>
   map_of (body (handler_on_data options_data)) ''difficulty'' = Some (Json (JStr ''2'')) \<and>
   \<not> handler_invalid options_data_without_difficulty \<and>
   handler_on_data options_data_without_difficulty =
     error_response 500
       ''Failed to generate question. Please check your API key and configuration.'' \<and>
   \<not> handler_invalid constructor_label_data \<and>
   map_of (body (handler_on_data constructor_label_data)) ''difficulty'' =
     Some (Builtin_function ''constructor'')"
  by (simp add: handler_on_data_def handler_invalid_def handler_mappedData_def
      mapped_difficulty_def difficultyMap_def Object_prototype_functions_def get_def
      options_data_def options_data_without_difficulty_def constructor_label_data_def
      handler_catch_def toLowerCase_def lower_char_def)

text \<open>
  Claim C1, amended. For a parsed response that passes the shape check and whose difficulty
  is a string other than "constructor" and "__proto__" (in any case), both endpoints answer
  with a success whose difficulty field is one of the strings "1", "2", "3": the code of the
  label, where "easy", "medium" and "hard" in any case have the codes 1, 2, 3 and every other
  label has the code 1.
\<close>

theorem difficulty_label_maps_to_string_code:
  assumes "get data ''difficulty'' = Some (JStr label)"
    and "toLowerCase label \<noteq> ''constructor''" and "toLowerCase label \<noteq> ''__proto__''"
  shows "(\<not> handler_invalid data \<longrightarrow>
            (\<exists>body. handler_on_data data = Response 200 body \<and>
                    map_of body ''difficulty'' = Some (Json (JStr (spec_difficulty_code label))))) \<and>
         (POST_invalid data = Inr False \<longrightarrow>
            (\<exists>body. POST_on_data message data = Response 200 body \<and>
                    map_of body ''difficulty'' = Some (Json (JStr (spec_difficulty_code label))))) \<and>
         spec_difficulty_code label \<in> {''1'', ''2'', ''3''}"
proof -
  have d: "mapped_difficulty data = Inr (Json (JStr (spec_difficulty_code label)))"
    using mapped_difficulty_label [OF assms] by (simp add: spec_difficulty_code_def)
  have h: "\<exists>body. handler_on_data data = Response 200 body \<and>
                    map_of body ''difficulty'' = Some (Json (JStr (spec_difficulty_code label)))"
    if "\<not> handler_invalid data"
    using that d by (simp add: handler_on_data_def handler_mappedData_def update_conv')
  have p: "\<exists>body. POST_on_data message data = Response 200 body \<and>
                    map_of body ''difficulty'' = Some (Json (JStr (spec_difficulty_code label)))"
    if "POST_invalid data = Inr False"
    using that d by (simp add: POST_on_data_def POST_mappedData_def)
  have c: "spec_difficulty_code label \<in> {''1'', ''2'', ''3''}"
    by (simp add: spec_difficulty_code_def)
  from h p c show ?thesis by blast
qed

theorem difficulty_label_maps_to_string_code_witness:
  "get options_data ''difficulty'' = Some (JStr ''Medium'') \<and>
   toLowerCase ''Medium'' = ''medium'' \<and>
   \<not> handler_invalid options_data \<and>
   status (handler_on_data options_data) = 200 \<and>
   map_of (body (handler_on_data options_data)) ''difficulty'' = Some (Json (JStr ''2'')) \<and>
   get choices_data ''difficulty'' = Some (JStr ''easy'') \<and>
   POST_invalid choices_data = Inr False \<and>
   status (POST_on_data v8_message choices_data) = 200 \<and>
   map_of (body (POST_on_data v8_message choices_data)) ''difficulty'' = Some (Json (JStr ''1''))"
proof -
  have g: "get options_data ''difficulty'' = Some (JStr ''Medium'')"
    by (simp add: get_def options_data_def)
  have n1: "toLowerCase ''Medium'' \<noteq> ''constructor''" and n2: "toLowerCase ''Medium'' \<noteq> ''__proto__''"
    by (simp_all add: toLowerCase_Medium)
  have c: "spec_difficulty_code ''Medium'' = ''2''"
    by (simp add: spec_difficulty_code_def toLowerCase_Medium)
  from difficulty_label_maps_to_string_code [OF g n1 n2, of v8_message] options_data_valid c
  obtain body where h: "handler_on_data options_data = Response 200 body"
    "map_of body ''difficulty'' = Some (Json (JStr ''2''))"
    by auto
  have e: "toLowerCase ''easy'' = ''easy''"
    by (simp add: toLowerCase_def lower_char_def)
  have g': "get choices_data ''difficulty'' = Some (JStr ''easy'')"
    by (simp add: get_def choices_data_def)
  have n1': "toLowerCase ''easy'' \<noteq> ''constructor''" and n2': "toLowerCase ''easy'' \<noteq> ''__proto__''"
    by (simp_all add: e)
  have c': "spec_difficulty_code ''easy'' = ''1''"
    by (simp add: spec_difficulty_code_def e)
  from difficulty_label_maps_to_string_code [OF g' n1' n2', of v8_message] choices_data_valid c'
  obtain body' where p: "POST_on_data v8_message choices_data = Response 200 body'"
    "map_of body' ''difficulty'' = Some (Json (JStr ''1''))"
    by auto
  from g options_data_valid toLowerCase_Medium h g' choices_data_valid p show ?thesis by simp
qed

subsection \<open>A difficulty that is not a string\<close>

lemma invalid_ignores_difficulty:
  "handler_invalid (AList.update ''difficulty'' v data) = handler_invalid data"
  "POST_invalid (AList.update ''difficulty'' v data) = POST_invalid data"
proof -
  have other: "get (AList.update ''difficulty'' v data) k = get data k" if "k \<noteq> ''difficulty''" for k
    using that get_update_other [of "''difficulty''" k v data] by simp
  have "get (AList.update ''difficulty'' v data) ''question'' = get data ''question''"
    "get (AList.update ''difficulty'' v data) ''options'' = get data ''options''"
    "get (AList.update ''difficulty'' v data) ''answer'' = get data ''answer''"
    "get (AList.update ''difficulty'' v data) ''choices'' = get data ''choices''"
    by (simp_all add: other)
  note same = this
  show "handler_invalid (AList.update ''difficulty'' v data) = handler_invalid data"
    unfolding handler_invalid_def same ..
  show "POST_invalid (AList.update ''difficulty'' v data) = POST_invalid data"
    unfolding POST_invalid_def same ..
qed

text \<open>
  Claim C10. Neither shape check reads the difficulty: changing that field changes neither
  result. When the difficulty is absent or not a string, evaluating
  \<open>data.difficulty.toLowerCase()\<close> throws. An object that passes the shape check is then
  answered by the \<open>catch\<close> block with status 500: by \<open>handler\<close> with the generic message,
  by \<open>POST\<close> with the response its \<open>catch\<close> block picks from the error's message, which
  is the generic one when that message contains none of 401, 429 and 500. The difficulty is
  not defaulted to 1.
\<close>

theorem difficulty_is_not_validated:
  assumes "\<forall>label. get data ''difficulty'' \<noteq> Some (JStr label)"
  shows "handler_invalid (AList.update ''difficulty'' v data) = handler_invalid data \<and>
         POST_invalid (AList.update ''difficulty'' v data) = POST_invalid data \<and>
         (\<exists>e. mapped_difficulty data = Inl e \<and>
              (\<not> handler_invalid data \<longrightarrow>
                 handler_on_data data =
                   error_response 500
                     ''Failed to generate question. Please check your API key and configuration.'') \<and>
              (POST_invalid data = Inr False \<longrightarrow>
                 POST_on_data message data = POST_catch message e \<and>
                 status (POST_on_data message data) = 500) \<and>
              (POST_invalid data = Inr False \<longrightarrow>
                 \<not> str_includes (error_message message e) ''401'' \<longrightarrow>
                 \<not> str_includes (error_message message e) ''429'' \<longrightarrow>
                 \<not> str_includes (error_message message e) ''500'' \<longrightarrow>
                 POST_on_data message data =
                   error_response 500
                     ''Failed to generate question. Please check your API key and configuration.''))"
proof -
  from mapped_difficulty_throws [OF assms] obtain e where e: "mapped_difficulty data = Inl e"
    by blast
  have h: "handler_on_data data =
             error_response 500
               ''Failed to generate question. Please check your API key and configuration.''"
    if "\<not> handler_invalid data"
    using that e by (simp add: handler_on_data_def handler_mappedData_def handler_catch_def)
  have p: "POST_on_data message data = POST_catch message e"
    if "POST_invalid data = Inr False"
    using that e by (simp add: POST_on_data_def POST_mappedData_def)
  have g: "POST_catch message e =
             (error_response 500
               ''Failed to generate question. Please check your API key and configuration.''
              :: 'a response)"
    if "\<not> str_includes (error_message message e) ''401''"
      "\<not> str_includes (error_message message e) ''429''"
      "\<not> str_includes (error_message message e) ''500''"
    using that by (simp add: POST_catch_def)
  have s: "POST_on_data message data = POST_catch message e \<and>
           status (POST_on_data message data) = 500"
    if "POST_invalid data = Inr False"
    using p [OF that] POST_catch_status [of message e] by simp
  have g': "POST_on_data message data =
             error_response 500
               ''Failed to generate question. Please check your API key and configuration.''"
    if "POST_invalid data = Inr False"
      "\<not> str_includes (error_message message e) ''401''"
      "\<not> str_includes (error_message message e) ''429''"
      "\<not> str_includes (error_message message e) ''500''"
    using p [OF that(1)] g [OF that(2-4)] by simp
  from e h s g' invalid_ignores_difficulty [of v data]
  show ?thesis by blast
qed

theorem difficulty_is_not_validated_witness:
  "get options_data_without_difficulty ''difficulty'' = None \<and>
   \<not> handler_invalid options_data_without_difficulty \<and>
   handler_on_data options_data_without_difficulty =
     error_response 500
       ''Failed to generate question. Please check your API key and configuration.'' \<and>
   get choices_data_without_difficulty ''difficulty'' = None \<and>
   POST_invalid choices_data_without_difficulty = Inr False \<and>
   POST_on_data v8_message choices_data_without_difficulty =
     error_response 500
       ''Failed to generate question. Please check your API key and configuration.''"
proof -
  have a: "get options_data_without_difficulty ''difficulty'' = None"
    by (simp add: get_def options_data_without_difficulty_def)
  have b: "\<not> handler_invalid options_data_without_difficulty"
    by (simp add: handler_invalid_def get_def options_data_without_difficulty_def)
  have c: "get choices_data_without_difficulty ''difficulty'' = None"
    by (simp add: get_def choices_data_without_difficulty_def)
  have d: "POST_invalid choices_data_without_difficulty = Inr False"
    by (simp add: POST_invalid_def get_def choices_data_without_difficulty_def)
  have e: "mapped_difficulty choices_data_without_difficulty =
             Inl (TypeError_read_undefined ''toLowerCase'')"
    using c by (simp add: mapped_difficulty_def)
  have m: "\<not> str_includes (error_message v8_message (TypeError_read_undefined ''toLowerCase'')) ''401''"
    "\<not> str_includes (error_message v8_message (TypeError_read_undefined ''toLowerCase'')) ''429''"
    "\<not> str_includes (error_message v8_message (TypeError_read_undefined ''toLowerCase'')) ''500''"
    by (simp_all add: error_message_def v8_message_def str_includes_def sublist_Cons_right)
  from a have a': "\<forall>label. get options_data_without_difficulty ''difficulty'' \<noteq> Some (JStr label)"
    by simp
  from c have c': "\<forall>label. get choices_data_without_difficulty ''difficulty'' \<noteq> Some (JStr label)"
    by simp
  from difficulty_is_not_validated [OF a', of undefined v8_message] b
  have h: "handler_on_data options_data_without_difficulty =
     error_response 500
       ''Failed to generate question. Please check your API key and configuration.''"
    by blast
  from difficulty_is_not_validated [OF c', of undefined v8_message] d e m
  have p: "POST_on_data v8_message choices_data_without_difficulty =
     error_response 500
       ''Failed to generate question. Please check your API key and configuration.''"
    by auto
  from a b c d h p show ?thesis by simp
qed

end
